theory Spec2Isabelle
  imports Main "HOL-Library.Word"
begin

section \<open>The contact form of \<open>tel.js\<close>\<close>

text \<open>
  \<open>tel.js\<close> is one React component, \<open>App\<close>: a form with a name and a phone number, saved
  to Firestore and then sent to a text-generation endpoint that guesses a country of
  origin. The embedding below follows the component function by function. The React
  state cells are the fields of one record, every setter is a record update, the
  services the component talks to (Firebase, Firestore, \<open>fetch\<close>) answer as an
  environment record says, and every call to one of them is appended to a log.
  Console output and the JSX markup are not part of the model, except for the two
  expressions of the markup that the properties below are about.
\<close>

subsection \<open>Strings\<close>

text \<open>
  A JavaScript string is a sequence of UTF-16 code units. \<open>js_lit\<close> embeds an ASCII
  literal of the source.
\<close>

type_synonym jsstring = "16 word list"

definition js_lit :: "string \<Rightarrow> jsstring" where
  "js_lit cs = map of_char cs"

text \<open>The truth value of a string or \<open>null\<close>: \<open>null\<close> and \<open>''\<close> are falsy.\<close>

definition truthy :: "jsstring option \<Rightarrow> bool" where
  "truthy v = (case v of None \<Rightarrow> False | Some s \<Rightarrow> s \<noteq> [])"

text \<open>
  \<open>String.prototype.trim\<close> removes the code points of the \<open>WhiteSpace\<close> and
  \<open>LineTerminator\<close> productions from both ends. All of them are single code units.
\<close>

definition is_white_space :: "16 word \<Rightarrow> bool" where
  "is_white_space c =
     (c = 0x0009 \<or> c = 0x000A \<or> c = 0x000B \<or> c = 0x000C \<or> c = 0x000D \<or> c = 0x0020
      \<or> c = 0x00A0 \<or> c = 0x1680 \<or> (0x2000 \<le> c \<and> c \<le> 0x200A) \<or> c = 0x2028
      \<or> c = 0x2029 \<or> c = 0x202F \<or> c = 0x205F \<or> c = 0x3000 \<or> c = 0xFEFF)"

definition trim :: "jsstring \<Rightarrow> jsstring" where
  "trim s = rev (dropWhile is_white_space (rev (dropWhile is_white_space s)))"

text \<open>A number inside a template literal: its decimal digits.\<close>

fun decimal :: "nat \<Rightarrow> jsstring" where
  "decimal n =
     (if n < 10 then [0x30 + of_nat n]
      else decimal (n div 10) @ [0x30 + of_nat (n mod 10)])"

declare decimal.simps [simp del]

subsection \<open>The regular expression of the phone check\<close>

text \<open>
  \<open>/^\d{7,15}$/\<close> uses three constructs: the two assertions and a bounded greedy
  repetition of a character class. Without the \<open>m\<close> flag, \<open>^\<close> holds at index 0 only and
  \<open>$\<close> at the end of the input only; \<open>\d\<close> is \<open>[0-9]\<close>. \<open>match_here\<close> is the
  backtracking matcher at one start index, and \<open>regex_test\<close> is
  \<open>RegExp.prototype.test\<close> of a regular expression without the \<open>g\<close> and \<open>y\<close> flags: it
  tries every start index from 0 to the length of the input.
\<close>

definition is_digit :: "16 word \<Rightarrow> bool" where
  "is_digit c = (0x30 \<le> c \<and> c \<le> 0x39)"

datatype char_class = Digit

datatype regex_term = AssertStart | AssertEnd | Repeat char_class nat nat

fun class_matches :: "char_class \<Rightarrow> 16 word \<Rightarrow> bool" where
  "class_matches Digit c = is_digit c"

fun match_here :: "regex_term list \<Rightarrow> jsstring \<Rightarrow> nat \<Rightarrow> bool" where
  "match_here [] s i = True"
| "match_here (AssertStart # ts) s i = (i = 0 \<and> match_here ts s i)"
| "match_here (AssertEnd # ts) s i = (i = length s \<and> match_here ts s i)"
| "match_here (Repeat c lo hi # ts) s i =
     list_ex (\<lambda>k. i + k \<le> length s \<and> list_all (class_matches c) (take k (drop i s))
                  \<and> match_here ts s (i + k)) (rev [lo..<Suc hi])"

definition regex_test :: "regex_term list \<Rightarrow> jsstring \<Rightarrow> bool" where
  "regex_test re s = list_ex (match_here re s) [0..<Suc (length s)]"

definition phoneRegex :: "regex_term list" where
  "phoneRegex = [AssertStart, Repeat Digit 7 15, AssertEnd]"

definition validatePhoneNumber :: "jsstring \<Rightarrow> bool" where
  "validatePhoneNumber number = regex_test phoneRegex number"

text \<open>
  The phone check in the words of the specification: only ASCII digits, and a length
  from 7 to 15.
\<close>

definition spec_validatePhone :: "jsstring \<Rightarrow> bool" where
  "spec_validatePhone s = (list_all is_digit s \<and> 7 \<le> length s \<and> length s \<le> 15)"

text \<open>The \<open>onChange\<close> handler of the phone field: \<open>replace(/\D/g, '')\<close>.\<close>

definition strip_non_digits :: "jsstring \<Rightarrow> jsstring" where
  "strip_non_digits v = filter is_digit v"

subsection \<open>Data\<close>

datatype status_type = Status_error | Status_success | Status_info

record contact_data =
  cd_name :: jsstring
  cd_phoneNumber :: jsstring

record submitted_data =
  sub_name :: jsstring
  sub_phoneNumber :: jsstring
  sub_docId :: jsstring

text \<open>
  The value of a timestamp field in a write: a time chosen by the client, or the
  sentinel of \<open>serverTimestamp()\<close>, which asks the server to put its own clock there.
\<close>

datatype field_value = Timestamp nat | ServerTimestamp

record save_data =
  sv_name :: jsstring
  sv_phoneNumber :: jsstring
  sv_userId :: jsstring
  sv_createdAt :: field_value

datatype firestore = Firestore

record firebase_user =
  uid :: jsstring

text \<open>The state cells of \<open>App\<close>, in the order of their \<open>useState\<close> calls.\<close>

record app_state =
  name :: jsstring
  phoneNumber :: jsstring
  submittedData :: "submitted_data option"
  isSubmitting :: bool
  db :: "firestore option"
  userId :: "jsstring option"
  isAuthReady :: bool
  prediction :: "jsstring option"
  isPredicting :: bool
  statusMessage :: "jsstring option"
  statusType :: "status_type option"

definition initial_state :: app_state where
  "initial_state =
     \<lparr>name = [], phoneNumber = [], submittedData = None, isSubmitting = False,
      db = None, userId = None, isAuthReady = False, prediction = None,
      isPredicting = False, statusMessage = None, statusType = None\<rparr>"

subsection \<open>The outside world\<close>

datatype js_error = Error jsstring | TypeError jsstring

fun message :: "js_error \<Rightarrow> jsstring" where
  "message (Error m) = m"
| "message (TypeError m) = m"

record doc_ref =
  ref_path :: "jsstring list"
  ref_id :: jsstring

datatype tool = GoogleSearch

record gemini_payload =
  contents :: "jsstring list list"
  tools :: "tool list"
  systemInstruction :: "jsstring list"

record http_request =
  url :: jsstring
  http_method :: jsstring
  headers :: "(jsstring \<times> jsstring) list"
  body :: gemini_payload

text \<open>Every call that leaves the page.\<close>

datatype request =
    SetDoc doc_ref save_data
  | Fetch http_request
  | SignInWithCustomToken jsstring
  | SignInAnonymously

text \<open>
  The body of a response, as far as the component reads it: \<open>JNull\<close> is the JSON value
  \<open>null\<close>, on which the property access \<open>result.candidates\<close> raises a \<open>TypeError\<close>;
  \<open>JCandidates t\<close> is any other value, \<open>t\<close> being what
  \<open>result.candidates?.[0]?.content?.parts?.[0]?.text\<close> evaluates to (\<open>None\<close> when the
  chain ends in \<open>undefined\<close>).
\<close>

datatype json_value = JNull | JCandidates "jsstring option"

record response =
  resp_ok :: bool
  resp_status :: nat
  resp_json :: "js_error + json_value"

datatype fetch_outcome = FetchRejects js_error | FetchResolves response

datatype init_step = InitializeApp | GetAuth | GetFirestore | OnAuthStateChanged

text \<open>
  What the environment supplies: the two globals of the hosting page (absent when
  \<open>None\<close>), the step of the Firebase set-up that raises (if any), what
  \<open>doc(collection(...))\<close> does (it throws \<open>doc_throws\<close> when that is not \<open>None\<close>, as the
  SDK does for a path it refuses, for instance with an application identifier that is
  empty or contains a slash; else it generates the identifier \<open>auto_id\<close>), and how each
  request ends.
\<close>

record env =
  app_id_global :: "jsstring option"
  initial_auth_token_global :: "jsstring option"
  init_throws :: "(init_step \<times> js_error) option"
  signIn_result :: "js_error option"
  doc_throws :: "js_error option"
  auto_id :: jsstring
  setDoc_result :: "js_error option"
  fetch_result :: fetch_outcome

definition appId :: "env \<Rightarrow> jsstring" where
  "appId e = (case app_id_global e of Some a \<Rightarrow> a | None \<Rightarrow> js_lit ''default-app-id'')"

definition initialAuthToken :: "env \<Rightarrow> jsstring option" where
  "initialAuthToken e = initial_auth_token_global e"

text \<open>
  The world a handler runs in: the state cells, the documents of the store, the log of
  requests, and the states in which a handler was suspended on an \<open>await\<close> (the states
  React can render while the handler waits).
\<close>

record world =
  ui :: app_state
  store :: "doc_ref \<rightharpoonup> save_data"
  requests :: "request list"
  frames :: "app_state list"

definition start :: "app_state \<Rightarrow> world" where
  "start s = \<lparr>ui = s, store = Map.empty, requests = [], frames = []\<rparr>"

subsection \<open>Control flow\<close>

text \<open>
  A piece of code either completes with a value or throws; in both cases it leaves a
  world behind.
\<close>

type_synonym 'a proc = "world \<Rightarrow> (js_error + 'a) \<times> world"

definition return :: "'a \<Rightarrow> 'a proc" where
  "return v w = (Inr v, w)"

definition throw :: "js_error \<Rightarrow> 'a proc" where
  "throw e w = (Inl e, w)"

definition then_do :: "'a proc \<Rightarrow> ('a \<Rightarrow> 'b proc) \<Rightarrow> 'b proc" where
  "then_do p f w = (case p w of (Inl e, w') \<Rightarrow> (Inl e, w') | (Inr v, w') \<Rightarrow> f v w')"

definition try_catch :: "'a proc \<Rightarrow> (js_error \<Rightarrow> 'a proc) \<Rightarrow> 'a proc" where
  "try_catch block handler w =
     (case block w of (Inl e, w') \<Rightarrow> handler e w' | (Inr v, w') \<Rightarrow> (Inr v, w'))"

definition try_finally :: "'a proc \<Rightarrow> (world \<Rightarrow> world) \<Rightarrow> 'a proc" where
  "try_finally block fin w = (case block w of (r, w') \<Rightarrow> (r, fin w'))"

definition update :: "(world \<Rightarrow> world) \<Rightarrow> unit proc" where
  "update f w = (Inr (), f w)"

definition suspend :: "world \<Rightarrow> world" where
  "suspend w = w\<lparr>frames := frames w @ [ui w]\<rparr>"

text \<open>
  \<open>await p\<close>: the callee runs, the caller is suspended in the state the callee has
  reached, and goes on with the callee's result.
\<close>

definition await :: "'a proc \<Rightarrow> 'a proc" where
  "await p w = (case p w of (r, w') \<Rightarrow> (r, suspend w'))"

subsection \<open>Setters\<close>

definition setName :: "jsstring \<Rightarrow> world \<Rightarrow> world" where
  "setName v w = w\<lparr>ui := (ui w)\<lparr>name := v\<rparr>\<rparr>"

definition setPhoneNumber :: "jsstring \<Rightarrow> world \<Rightarrow> world" where
  "setPhoneNumber v w = w\<lparr>ui := (ui w)\<lparr>phoneNumber := v\<rparr>\<rparr>"

definition setSubmittedData :: "submitted_data option \<Rightarrow> world \<Rightarrow> world" where
  "setSubmittedData v w = w\<lparr>ui := (ui w)\<lparr>submittedData := v\<rparr>\<rparr>"

definition setIsSubmitting :: "bool \<Rightarrow> world \<Rightarrow> world" where
  "setIsSubmitting v w = w\<lparr>ui := (ui w)\<lparr>isSubmitting := v\<rparr>\<rparr>"

definition setDb :: "firestore option \<Rightarrow> world \<Rightarrow> world" where
  "setDb v w = w\<lparr>ui := (ui w)\<lparr>db := v\<rparr>\<rparr>"

definition setUserId :: "jsstring option \<Rightarrow> world \<Rightarrow> world" where
  "setUserId v w = w\<lparr>ui := (ui w)\<lparr>userId := v\<rparr>\<rparr>"

definition setIsAuthReady :: "bool \<Rightarrow> world \<Rightarrow> world" where
  "setIsAuthReady v w = w\<lparr>ui := (ui w)\<lparr>isAuthReady := v\<rparr>\<rparr>"

definition setPrediction :: "jsstring option \<Rightarrow> world \<Rightarrow> world" where
  "setPrediction v w = w\<lparr>ui := (ui w)\<lparr>prediction := v\<rparr>\<rparr>"

definition setIsPredicting :: "bool \<Rightarrow> world \<Rightarrow> world" where
  "setIsPredicting v w = w\<lparr>ui := (ui w)\<lparr>isPredicting := v\<rparr>\<rparr>"

definition setStatusMessage :: "jsstring option \<Rightarrow> world \<Rightarrow> world" where
  "setStatusMessage v w = w\<lparr>ui := (ui w)\<lparr>statusMessage := v\<rparr>\<rparr>"

definition setStatusType :: "status_type option \<Rightarrow> world \<Rightarrow> world" where
  "setStatusType v w = w\<lparr>ui := (ui w)\<lparr>statusType := v\<rparr>\<rparr>"

subsection \<open>The services\<close>

definition firebase_call :: "env \<Rightarrow> init_step \<Rightarrow> unit proc" where
  "firebase_call e step =
     (case init_throws e of
        None \<Rightarrow> return ()
      | Some (at, err) \<Rightarrow> if at = step then throw err else return ())"

definition signIn :: "env \<Rightarrow> request \<Rightarrow> unit proc" where
  "signIn e r w =
     (let w = w\<lparr>requests := requests w @ [r]\<rparr>
      in case signIn_result e of None \<Rightarrow> (Inr (), w) | Some err \<Rightarrow> (Inl err, w))"

definition setDoc :: "env \<Rightarrow> doc_ref \<Rightarrow> save_data \<Rightarrow> unit proc" where
  "setDoc e ref data w =
     (let w = w\<lparr>requests := requests w @ [SetDoc ref data]\<rparr>
      in case setDoc_result e of
           None \<Rightarrow> (Inr (), w\<lparr>store := (store w)(ref \<mapsto> data)\<rparr>)
         | Some err \<Rightarrow> (Inl err, w))"

definition fetch :: "env \<Rightarrow> http_request \<Rightarrow> response proc" where
  "fetch e r w =
     (let w = w\<lparr>requests := requests w @ [Fetch r]\<rparr>
      in case fetch_result e of
           FetchRejects err \<Rightarrow> (Inl err, w)
         | FetchResolves resp \<Rightarrow> (Inr resp, w))"

definition response_json :: "response \<Rightarrow> json_value proc" where
  "response_json resp w = (resp_json resp, w)"

subsection \<open>Firebase initialisation and authentication (lines 38 to 80)\<close>

definition authenticate :: "env \<Rightarrow> unit proc" where
  "authenticate e =
     try_catch
       (case initialAuthToken e of
          None \<Rightarrow> await (signIn e SignInAnonymously)
        | Some token \<Rightarrow>
            if token \<noteq> [] then await (signIn e (SignInWithCustomToken token))
            else await (signIn e SignInAnonymously))
       (\<lambda>error. update (\<lambda>w.
          let w = setStatusMessage
                    (Some (js_lit ''Authentication failed. Check console for details.'')) w;
              w = setStatusType (Some Status_error) w
          in w))"

text \<open>
  The listener given to \<open>onAuthStateChanged\<close>. It starts \<open>authenticate()\<close> without
  awaiting it; the model runs that call to its end.
\<close>

definition authStateListener :: "env \<Rightarrow> firebase_user option \<Rightarrow> unit proc" where
  "authStateListener e user =
     (case user of
        Some u \<Rightarrow> update (\<lambda>w.
          let w = setUserId (Some (uid u)) w;
              w = setIsAuthReady True w
          in w)
      | None \<Rightarrow> authenticate e)"

definition mountEffect :: "env \<Rightarrow> unit proc" where
  "mountEffect e =
     try_catch
       (then_do (firebase_call e InitializeApp) (\<lambda>_.
        then_do (firebase_call e GetAuth) (\<lambda>_.
        then_do (firebase_call e GetFirestore) (\<lambda>_.
        then_do (update (setDb (Some Firestore))) (\<lambda>_.
        firebase_call e OnAuthStateChanged)))))
       (\<lambda>err. update (\<lambda>w.
          let w = setStatusMessage
                    (Some (js_lit ''Firebase failed to initialize. Check console.'')) w;
              w = setStatusType (Some Status_error) w;
              w = setIsAuthReady True w
          in w))"

subsection \<open>\<open>predictCountryOfOrigin\<close> (lines 85 to 130)\<close>

definition userQuery :: "jsstring \<Rightarrow> jsstring \<Rightarrow> jsstring" where
  "userQuery contactName contactNumber =
     js_lit ''Analyze the name \"'' @ contactName
     @ js_lit ''\" and the phone number \"'' @ contactNumber
     @ js_lit ''\". Based on international dialing codes and typical naming conventions, predict the most likely country of origin for this person. Provide a single, concise country name and an explanation in a single paragraph.''"

definition apiKey :: jsstring where
  "apiKey = js_lit ''''"

definition apiUrl :: jsstring where
  "apiUrl =
     js_lit ''https://generativelanguage.googleapis.com/v1beta/models/gemini-2.5-flash-preview-05-20:generateContent?key=''
     @ apiKey"

definition payload :: "jsstring \<Rightarrow> gemini_payload" where
  "payload q =
     \<lparr>contents = [[q]],
      tools = [GoogleSearch],
      systemInstruction =
        [js_lit ''You are an expert geopolitical and name analysis assistant.'']\<rparr>"

definition prediction_request :: "jsstring \<Rightarrow> jsstring \<Rightarrow> http_request" where
  "prediction_request contactName contactNumber =
     \<lparr>url = apiUrl,
      http_method = js_lit ''POST'',
      headers = [(js_lit ''Content-Type'', js_lit ''application/json'')],
      body = payload (userQuery contactName contactNumber)\<rparr>"

definition candidate_text :: "json_value \<Rightarrow> jsstring proc" where
  "candidate_text result =
     (case result of
        JNull \<Rightarrow> throw (TypeError (js_lit ''Cannot read properties of null''))
      | JCandidates t \<Rightarrow>
          return (if truthy t then (case t of Some x \<Rightarrow> x | None \<Rightarrow> [])
                  else js_lit ''Could not determine country of origin.''))"

text \<open>The \<open>try\<close> block of \<open>predictCountryOfOrigin\<close>.\<close>

definition predict_try :: "env \<Rightarrow> jsstring \<Rightarrow> jsstring \<Rightarrow> unit proc" where
  "predict_try e contactName contactNumber =
     then_do (await (fetch e (prediction_request contactName contactNumber))) (\<lambda>response.
       if \<not> resp_ok response
       then throw (Error (js_lit ''API call failed with status: ''
                          @ decimal (resp_status response)))
       else
         then_do (await (response_json response)) (\<lambda>result.
         then_do (candidate_text result) (\<lambda>text.
         update (\<lambda>w.
           let w = setPrediction (Some text) w;
               w = setStatusMessage (Some (js_lit ''Prediction complete!'')) w;
               w = setStatusType (Some Status_success) w
           in w))))"

definition predictCountryOfOrigin :: "env \<Rightarrow> jsstring \<Rightarrow> jsstring \<Rightarrow> unit proc" where
  "predictCountryOfOrigin e contactName contactNumber =
     then_do (update (\<lambda>w.
         let w = setIsPredicting True w;
             w = setPrediction None w;
             w = setStatusMessage (Some (js_lit ''Predicting country...'')) w;
             w = setStatusType (Some Status_info) w
         in w)) (\<lambda>_.
     try_finally
       (try_catch (predict_try e contactName contactNumber)
          (\<lambda>err. update (\<lambda>w.
             let w = setStatusMessage
                       (Some (js_lit ''Failed to predict country. Check console for API errors.'')) w;
                 w = setStatusType (Some Status_error) w
             in w)))
       (setIsPredicting False))"

subsection \<open>\<open>saveContactToFirestore\<close> (lines 136 to 159)\<close>

definition contacts_path :: "env \<Rightarrow> jsstring list" where
  "contacts_path e =
     [js_lit ''artifacts'', appId e, js_lit ''public'', js_lit ''data'', js_lit ''contacts'']"

text \<open>
  The guard \<open>!db || !userId\<close> throws when \<open>db\<close> is \<open>null\<close> and when \<open>userId\<close> is \<open>null\<close> or
  the empty string. The \<open>catch\<close> of the write replaces whatever \<open>setDoc\<close> raised by an
  error of its own. The document reference is built between the guard and the \<open>try\<close>
  (line 142, \<open>doc(collection(getFirestore(), ...))\<close>): what that throws leaves
  \<open>saveContactToFirestore\<close> as it is, and no write is attempted.
\<close>

definition new_contact_ref :: "env \<Rightarrow> doc_ref proc" where
  "new_contact_ref e =
     (case doc_throws e of
        Some err \<Rightarrow> throw err
      | None \<Rightarrow> return \<lparr>ref_path = contacts_path e, ref_id = auto_id e\<rparr>)"

definition saveContactToFirestore :: "env \<Rightarrow> contact_data \<Rightarrow> jsstring proc" where
  "saveContactToFirestore e data w =
     (case userId (ui w) of
        None \<Rightarrow> throw (Error (js_lit ''Firestore or User ID not available for saving.'')) w
      | Some u \<Rightarrow>
          if db (ui w) = None \<or> u = []
          then throw (Error (js_lit ''Firestore or User ID not available for saving.'')) w
          else
            then_do (new_contact_ref e) (\<lambda>contactRef.
              let saveData = \<lparr>sv_name = cd_name data, sv_phoneNumber = cd_phoneNumber data,
                              sv_userId = u, sv_createdAt = ServerTimestamp\<rparr>
              in try_catch
                   (then_do (await (setDoc e contactRef saveData)) (\<lambda>_.
                    return (ref_id contactRef)))
                   (\<lambda>error. throw (Error (js_lit ''Failed to save data to cloud. Check console.''))))
              w)"

subsection \<open>\<open>handleSubmit\<close> (lines 176 to 225)\<close>

text \<open>The \<open>try\<close> block of \<open>handleSubmit\<close>.\<close>

definition handleSubmit_try :: "env \<Rightarrow> contact_data \<Rightarrow> unit proc" where
  "handleSubmit_try e contactData =
     then_do (update (\<lambda>w.
         let w = setStatusMessage (Some (js_lit ''Saving contact data to Firestore...'')) w;
             w = setStatusType (Some Status_info) w
         in w)) (\<lambda>_.
     then_do (await (saveContactToFirestore e contactData)) (\<lambda>docId.
     then_do (await (predictCountryOfOrigin e (cd_name contactData)
                        (cd_phoneNumber contactData))) (\<lambda>_.
     update (\<lambda>w.
       let w = setSubmittedData
                 (Some \<lparr>sub_name = cd_name contactData,
                        sub_phoneNumber = cd_phoneNumber contactData,
                        sub_docId = docId\<rparr>) w;
           w = setName (js_lit '''') w;
           w = setPhoneNumber (js_lit '''') w;
           w = setStatusMessage (Some (js_lit ''Data saved and prediction requested!'')) w;
           w = setStatusType (Some Status_success) w
       in w))))"

text \<open>
  The handler reads \<open>isAuthReady\<close>, \<open>name\<close> and \<open>phoneNumber\<close> (and, in
  \<open>saveContactToFirestore\<close>, \<open>db\<close> and \<open>userId\<close>) as they were when the form was
  rendered; it writes none of them before it has read them, so one state is enough.
\<close>

definition handleSubmit :: "env \<Rightarrow> unit proc" where
  "handleSubmit e w0 =
     (let w = setSubmittedData None w0;
          w = setPrediction None w;
          w = setStatusMessage None w;
          w = setStatusType None w
      in
        if \<not> isAuthReady (ui w)
        then update (\<lambda>w.
               let w = setStatusMessage
                         (Some (js_lit ''Authentication is not ready. Please wait a moment.'')) w;
                   w = setStatusType (Some Status_info) w
               in w) w
        else if trim (name (ui w)) = [] \<or> \<not> validatePhoneNumber (phoneNumber (ui w))
        then update (\<lambda>w.
               let w = setStatusMessage
                         (Some (js_lit ''Please enter a valid name and phone number (7-15 digits only).'')) w;
                   w = setStatusType (Some Status_error) w
               in w) w
        else
          let w = setIsSubmitting True w;
              contactData = \<lparr>cd_name = trim (name (ui w)),
                             cd_phoneNumber = phoneNumber (ui w)\<rparr>
          in try_finally
               (try_catch (handleSubmit_try e contactData)
                  (\<lambda>error. update (\<lambda>w.
                     let w = setStatusMessage
                               (Some (if message error \<noteq> [] then message error
                                      else js_lit ''An unexpected error occurred during submission.'')) w;
                         w = setStatusType (Some Status_error) w
                     in w)))
               (setIsSubmitting False) w)"

subsection \<open>The two expressions of the markup\<close>

text \<open>The \<open>disabled\<close> attribute of the submit button (line 347).\<close>

definition submit_disabled :: "app_state \<Rightarrow> bool" where
  "submit_disabled s = (isSubmitting s \<or> isPredicting s \<or> \<not> isAuthReady s)"

text \<open>
  The panel of the last submission (lines 357 to 364): nothing when \<open>submittedData\<close> is
  \<open>null\<close>, else its name, phone number and document identifier.
\<close>

definition last_submission_panel :: "app_state \<Rightarrow> (jsstring \<times> jsstring \<times> jsstring) option" where
  "last_submission_panel s =
     (case submittedData s of
        None \<Rightarrow> None
      | Some d \<Rightarrow> Some (sub_name d, sub_phoneNumber d, sub_docId d))"

subsection \<open>Events of the page\<close>

text \<open>
  What can happen to the mounted component: the effect of the first render, a
  notification of the identity service, a keystroke in one of the two fields, and a
  submit event. Each event carries the answers the services give while it is handled.
  Handlers run one after the other.
\<close>

datatype event =
    Mount env
  | AuthStateChanged env "firebase_user option"
  | NameInput jsstring
  | PhoneInput jsstring
  | Submit env

fun handle :: "world \<Rightarrow> event \<Rightarrow> world" where
  "handle w (Mount e) = snd (mountEffect e w)"
| "handle w (AuthStateChanged e user) = snd (authStateListener e user w)"
| "handle w (NameInput v) = setName v w"
| "handle w (PhoneInput v) = setPhoneNumber (strip_non_digits v) w"
| "handle w (Submit e) = snd (handleSubmit e w)"

definition run :: "event list \<Rightarrow> world" where
  "run evs = foldl handle (start initial_state) evs"

subsection \<open>Observations\<close>

text \<open>The requests that one submit event adds to the log.\<close>

definition issued :: "env \<Rightarrow> world \<Rightarrow> request list" where
  "issued e w = drop (length (requests w)) (requests (snd (handleSubmit e w)))"

text \<open>The states in which one submit event was suspended.\<close>

definition in_flight :: "env \<Rightarrow> world \<Rightarrow> app_state list" where
  "in_flight e w = drop (length (frames w)) (frames (snd (handleSubmit e w)))"

text \<open>The world that \<open>predictCountryOfOrigin\<close> leaves behind.\<close>

definition predicted :: "env \<Rightarrow> jsstring \<Rightarrow> jsstring \<Rightarrow> world \<Rightarrow> world" where
  "predicted e contactName contactNumber w =
     snd (predictCountryOfOrigin e contactName contactNumber w)"

text \<open>The prediction request fails: a network error, or a response that is not 2xx.\<close>

definition request_fails :: "env \<Rightarrow> bool" where
  "request_fails e =
     (case fetch_result e of FetchRejects err \<Rightarrow> True | FetchResolves r \<Rightarrow> \<not> resp_ok r)"

fun is_fetch :: "request \<Rightarrow> bool" where
  "is_fetch (Fetch q) = True"
| "is_fetch r = False"

fun is_setDoc :: "request \<Rightarrow> bool" where
  "is_setDoc (SetDoc ref d) = True"
| "is_setDoc r = False"

text \<open>
  A record that may be in the store: it names an author, its name is not empty after
  trimming, and its phone number passes the check of the form.
\<close>

definition valid_record :: "save_data \<Rightarrow> bool" where
  "valid_record d =
     (sv_userId d \<noteq> [] \<and> trim (sv_name d) \<noteq> [] \<and> validatePhoneNumber (sv_phoneNumber d))"

fun valid_request :: "request \<Rightarrow> bool" where
  "valid_request (SetDoc ref d) = valid_record d"
| "valid_request r = True"

text \<open>A submission is rejected when the session is not ready or a field is not valid.\<close>

definition rejected :: "app_state \<Rightarrow> bool" where
  "rejected s =
     (\<not> isAuthReady s \<or> trim (name s) = [] \<or> \<not> validatePhoneNumber (phoneNumber s))"

text \<open>\<open>saveContactToFirestore\<close> can write: the store handle and the identity are there.\<close>

definition can_save :: "app_state \<Rightarrow> bool" where
  "can_save s = (db s \<noteq> None \<and> truthy (userId s))"

subsection \<open>Example inputs\<close>

definition john :: app_state where
  "john =
     initial_state\<lparr>name := js_lit ''John Smith'', phoneNumber := js_lit ''442079460199'',
                   db := Some Firestore, userId := Some (js_lit ''uid-1''),
                   isAuthReady := True\<rparr>"

definition answer :: response where
  "answer =
     \<lparr>resp_ok = True, resp_status = 200,
      resp_json = Inr (JCandidates (Some (js_lit ''United Kingdom'')))\<rparr>"

definition all_well :: env where
  "all_well =
     \<lparr>app_id_global = None, initial_auth_token_global = None, init_throws = None,
      signIn_result = None, doc_throws = None, auto_id = js_lit ''doc-1'',
      setDoc_result = None,
      fetch_result = FetchResolves answer\<rparr>"

definition offline :: js_error where
  "offline = TypeError (js_lit ''Failed to fetch'')"

definition prediction_fails :: env where
  "prediction_fails = all_well\<lparr>fetch_result := FetchRejects offline\<rparr>"

definition write_fails :: env where
  "write_fails = all_well\<lparr>setDoc_result := Some (Error (js_lit ''permission-denied''))\<rparr>"

text \<open>An application identifier with a slash: the SDK refuses the collection path.\<close>

definition bad_app_id :: env where
  "bad_app_id =
     all_well\<lparr>app_id_global := Some (js_lit ''a/b''),
              doc_throws := Some (Error (js_lit ''Invalid collection reference.''))\<rparr>"

definition sign_in_fails :: env where
  "sign_in_fails = all_well\<lparr>signIn_result := Some (Error (js_lit ''auth/network-request-failed''))\<rparr>"

text \<open>A state that shows the result of an earlier submission, with an empty form.\<close>

definition after_john :: app_state where
  "after_john =
     john\<lparr>name := [], phoneNumber := [],
          submittedData := Some \<lparr>sub_name = js_lit ''John Smith'',
                                 sub_phoneNumber = js_lit ''442079460199'',
                                 sub_docId = js_lit ''doc-1''\<rparr>,
          prediction := Some (js_lit ''United Kingdom''),
          statusMessage := Some (js_lit ''Data saved and prediction requested!''),
          statusType := Some Status_success\<rparr>"

text \<open>
  The invariant of the store: every write request of the log and every document of the
  store is a valid record.
\<close>

definition store_ok :: "world \<Rightarrow> bool" where
  "store_ok w = (list_all valid_request (requests w) \<and> (\<forall>d \<in> ran (store w). valid_record d))"

text \<open>
  A whole session: the component is mounted, signs in anonymously, the user types a
  name and a phone number, and submits.
\<close>

definition until_submit :: "event list" where
  "until_submit =
     [Mount all_well, AuthStateChanged all_well None,
      AuthStateChanged all_well (Some \<lparr>uid = js_lit ''uid-1''\<rparr>),
      NameInput (js_lit ''John Smith''), PhoneInput (js_lit ''+44 20 7946 0199'')]"

definition session :: "event list" where
  "session = until_submit @ [Submit all_well]"

definition john_ref :: doc_ref where
  "john_ref = \<lparr>ref_path = contacts_path all_well, ref_id = js_lit ''doc-1''\<rparr>"

definition john_record :: save_data where
  "john_record =
     \<lparr>sv_name = js_lit ''John Smith'', sv_phoneNumber = js_lit ''442079460199'',
      sv_userId = js_lit ''uid-1'', sv_createdAt = ServerTimestamp\<rparr>"

section \<open>Properties\<close>

subsection \<open>The phone check\<close>

lemma match_repeat_to_end:
  "match_here [Repeat c lo hi, AssertEnd] s i =
     (i \<le> length s \<and> lo \<le> length s - i \<and> length s - i \<le> hi
        \<and> list_all (class_matches c) (drop i s))"
proof -
  have "match_here [Repeat c lo hi, AssertEnd] s i =
        (\<exists>k\<in>{lo..<Suc hi}. i + k \<le> length s
            \<and> list_all (class_matches c) (take k (drop i s)) \<and> i + k = length s)"
    by (simp add: list_ex_iff del: upt_Suc)
  also have "\<dots> = (i \<le> length s \<and> lo \<le> length s - i \<and> length s - i \<le> hi
        \<and> list_all (class_matches c) (drop i s))"
  proof
    assume "\<exists>k\<in>{lo..<Suc hi}. i + k \<le> length s
            \<and> list_all (class_matches c) (take k (drop i s)) \<and> i + k = length s"
    then obtain k where k: "lo \<le> k" "k \<le> hi" "i + k = length s"
       "list_all (class_matches c) (take k (drop i s))" by auto
    from k(3) have "k = length s - i" by arith
    with k show "i \<le> length s \<and> lo \<le> length s - i \<and> length s - i \<le> hi
        \<and> list_all (class_matches c) (drop i s)" by auto
  next
    assume a: "i \<le> length s \<and> lo \<le> length s - i \<and> length s - i \<le> hi
        \<and> list_all (class_matches c) (drop i s)"
    then have "length s - i \<in> {lo..<Suc hi}" by auto
    moreover from a have "i + (length s - i) \<le> length s
            \<and> list_all (class_matches c) (take (length s - i) (drop i s))
            \<and> i + (length s - i) = length s"
      by auto
    ultimately show "\<exists>k\<in>{lo..<Suc hi}. i + k \<le> length s
            \<and> list_all (class_matches c) (take k (drop i s)) \<and> i + k = length s"
      by blast
  qed
  finally show ?thesis .
qed

lemma test_anchored:
  "regex_test (AssertStart # ts) s = match_here ts s 0"
  by (auto simp add: regex_test_def list_ex_iff simp del: upt_Suc)

text \<open>
  C1. For every string, \<open>validatePhoneNumber\<close> is true exactly when the string consists
  of ASCII digits only and its length is between 7 and 15: the regular expression of
  the source and the wording of the specification agree.
\<close>

theorem validatePhoneNumber_iff_digits_7_to_15:
  "validatePhoneNumber s = spec_validatePhone s"
proof -
  have "validatePhoneNumber s = match_here [Repeat Digit 7 15, AssertEnd] s 0"
    by (simp only: validatePhoneNumber_def phoneRegex_def test_anchored)
  also have "\<dots> = spec_validatePhone s"
    unfolding match_repeat_to_end spec_validatePhone_def
    by (auto simp add: list_all_iff)
  finally show ?thesis .
qed

theorem validatePhoneNumber_examples:
  "validatePhoneNumber (js_lit ''4420794601'') \<and> \<not> validatePhoneNumber (js_lit ''123'')
   \<and> \<not> validatePhoneNumber (js_lit ''12a4567'')"
  unfolding validatePhoneNumber_iff_digits_7_to_15
  by (simp add: spec_validatePhone_def js_lit_def is_digit_def)

subsection \<open>Unfolding the handlers\<close>

lemmas flow_defs = return_def throw_def then_do_def try_catch_def try_finally_def update_def
  await_def suspend_def
lemmas setter_defs = setName_def setPhoneNumber_def setSubmittedData_def setIsSubmitting_def
  setDb_def setUserId_def setIsAuthReady_def setPrediction_def setIsPredicting_def
  setStatusMessage_def setStatusType_def

lemma js_lit_empty: "js_lit '''' = []"
  by (simp add: js_lit_def)

lemma handleSubmit_not_ready:
  assumes "\<not> isAuthReady (ui w)"
  shows "handleSubmit e w =
    (Inr (), w\<lparr>ui := (ui w)\<lparr>submittedData := None, prediction := None,
       statusMessage := Some (js_lit ''Authentication is not ready. Please wait a moment.''),
       statusType := Some Status_info\<rparr>\<rparr>)"
  using assms by (simp add: handleSubmit_def flow_defs setter_defs)

lemma handleSubmit_invalid:
  assumes "isAuthReady (ui w)"
    and "trim (name (ui w)) = [] \<or> \<not> validatePhoneNumber (phoneNumber (ui w))"
  shows "handleSubmit e w =
    (Inr (), w\<lparr>ui := (ui w)\<lparr>submittedData := None, prediction := None,
       statusMessage := Some (js_lit ''Please enter a valid name and phone number (7-15 digits only).''),
       statusType := Some Status_error\<rparr>\<rparr>)"
  using assms by (auto simp add: handleSubmit_def flow_defs setter_defs)

subsection \<open>What \<open>saveContactToFirestore\<close> does, case by case\<close>

lemma save_no_handle:
  assumes "\<not> can_save (ui w)"
  shows "saveContactToFirestore e d w =
    (Inl (Error (js_lit ''Firestore or User ID not available for saving.'')), w)"
  using assms
  by (auto simp add: saveContactToFirestore_def can_save_def truthy_def throw_def split: option.splits)

lemma save_ref_throws:
  assumes "can_save (ui w)" and "doc_throws e = Some err"
  shows "saveContactToFirestore e d w = (Inl err, w)"
  using assms
  by (auto simp add: saveContactToFirestore_def new_contact_ref_def can_save_def truthy_def
        flow_defs split: option.splits)

lemma save_write_fails:
  assumes "can_save (ui w)" and "setDoc_result e = Some err" and "userId (ui w) = Some u"
    and "doc_throws e = None"
  shows "saveContactToFirestore e d w =
    (Inl (Error (js_lit ''Failed to save data to cloud. Check console.'')),
     w\<lparr>requests := requests w @ [SetDoc \<lparr>ref_path = contacts_path e, ref_id = auto_id e\<rparr>
          \<lparr>sv_name = cd_name d, sv_phoneNumber = cd_phoneNumber d, sv_userId = u,
           sv_createdAt = ServerTimestamp\<rparr>],
       frames := frames w @ [ui w]\<rparr>)"
  using assms
  by (auto simp add: saveContactToFirestore_def new_contact_ref_def can_save_def truthy_def
        flow_defs setDoc_def Let_def)

lemma save_written:
  assumes "can_save (ui w)" and "setDoc_result e = None" and "userId (ui w) = Some u"
    and "doc_throws e = None"
  shows "saveContactToFirestore e d w =
    (Inr (auto_id e),
     w\<lparr>store := (store w)(\<lparr>ref_path = contacts_path e, ref_id = auto_id e\<rparr> \<mapsto>
          \<lparr>sv_name = cd_name d, sv_phoneNumber = cd_phoneNumber d, sv_userId = u,
           sv_createdAt = ServerTimestamp\<rparr>),
       requests := requests w @ [SetDoc \<lparr>ref_path = contacts_path e, ref_id = auto_id e\<rparr>
          \<lparr>sv_name = cd_name d, sv_phoneNumber = cd_phoneNumber d, sv_userId = u,
           sv_createdAt = ServerTimestamp\<rparr>],
       frames := frames w @ [ui w]\<rparr>)"
  using assms
  by (auto simp add: saveContactToFirestore_def new_contact_ref_def can_save_def truthy_def
        flow_defs setDoc_def Let_def)

text \<open>
  \<open>saveContactToFirestore\<close> fails exactly when the handle or the identity is missing,
  the document reference cannot be built, or the write is rejected.
\<close>

lemma save_fails_iff:
  "(\<exists>err. fst (saveContactToFirestore e d w) = Inl err) =
     (\<not> can_save (ui w) \<or> doc_throws e \<noteq> None \<or> setDoc_result e \<noteq> None)"
proof (cases "can_save (ui w)")
  case False
  then show ?thesis by (simp add: save_no_handle)
next
  case True
  then obtain u where u: "userId (ui w) = Some u"
    by (auto simp add: can_save_def truthy_def split: option.splits)
  show ?thesis
  proof (cases "doc_throws e")
    case (Some err)
    with True show ?thesis by (simp add: save_ref_throws)
  next
    case None
    show ?thesis
    proof (cases "setDoc_result e")
      case no: None
      with True u None show ?thesis by (simp add: save_written)
    next
      case (Some err)
      with True u None show ?thesis by (simp add: save_write_fails)
    qed
  qed
qed

subsection \<open>What \<open>predictCountryOfOrigin\<close> does\<close>

lemmas predict_defs = predictCountryOfOrigin_def predict_try_def fetch_def response_json_def
  candidate_text_def

lemma predict_returns: "fst (predictCountryOfOrigin e n p w) = Inr ()"
  by (auto simp add: predict_defs flow_defs Let_def
      split: prod.splits sum.splits fetch_outcome.splits json_value.splits)

lemma predict_requests:
  "requests (snd (predictCountryOfOrigin e n p w)) = requests w @ [Fetch (prediction_request n p)]"
  by (auto simp add: predict_defs flow_defs setter_defs Let_def
      split: prod.splits sum.splits fetch_outcome.splits json_value.splits)

lemma predict_store:
  "store (snd (predictCountryOfOrigin e n p w)) = store w"
  by (auto simp add: predict_defs flow_defs setter_defs Let_def
      split: prod.splits sum.splits fetch_outcome.splits json_value.splits)

lemma predict_ui:
  "ui (snd (predictCountryOfOrigin e n p w)) =
     (ui w)\<lparr>prediction := prediction (ui (snd (predictCountryOfOrigin e n p w))),
            isPredicting := False,
            statusMessage := statusMessage (ui (snd (predictCountryOfOrigin e n p w))),
            statusType := statusType (ui (snd (predictCountryOfOrigin e n p w)))\<rparr>"
  by (auto simp add: predict_defs flow_defs setter_defs Let_def
      split: prod.splits sum.splits fetch_outcome.splits json_value.splits)

lemma predict_frames:
  "\<exists>fs. frames (snd (predictCountryOfOrigin e n p w)) = frames w @ fs
      \<and> (\<forall>f \<in> set fs. isPredicting f \<and> isSubmitting f = isSubmitting (ui w) \<and> isAuthReady f = isAuthReady (ui w))"
  by (auto simp add: predict_defs flow_defs setter_defs Let_def
      split: prod.splits sum.splits fetch_outcome.splits json_value.splits)

lemma predict_pair:
  "predictCountryOfOrigin e n p w = (Inr (), predicted e n p w)"
  using predict_returns [of e n p w] by (simp add: predicted_def prod_eq_iff)

lemma predicted_requests:
  "requests (predicted e n p w) = requests w @ [Fetch (prediction_request n p)]"
  by (simp add: predicted_def predict_requests)

lemma predicted_store: "store (predicted e n p w) = store w"
  by (simp add: predicted_def predict_store)

lemma predicted_fields:
  "name (ui (predicted e n p w)) = name (ui w)"
  "phoneNumber (ui (predicted e n p w)) = phoneNumber (ui w)"
  "submittedData (ui (predicted e n p w)) = submittedData (ui w)"
  "isSubmitting (ui (predicted e n p w)) = isSubmitting (ui w)"
  "db (ui (predicted e n p w)) = db (ui w)"
  "userId (ui (predicted e n p w)) = userId (ui w)"
  "isAuthReady (ui (predicted e n p w)) = isAuthReady (ui w)"
  "isPredicting (ui (predicted e n p w)) = False"
  unfolding predicted_def
  by (subst predict_ui, simp)+

lemma js_lit_nonempty: "js_lit (c # cs) \<noteq> []"
  by (simp add: js_lit_def)

lemmas submit_defs = handleSubmit_def handleSubmit_try_def flow_defs setter_defs

lemma handleSubmit_returns: "fst (handleSubmit e w) = Inr ()"
  by (auto simp add: submit_defs predict_pair Let_def split: prod.splits sum.splits)

lemma submit_no_handle:
  assumes "\<not> rejected (ui w)" and "\<not> can_save (ui w)"
  shows "snd (handleSubmit e w) =
    w\<lparr>ui := (ui w)\<lparr>submittedData := None, prediction := None,
         statusMessage := Some (js_lit ''Firestore or User ID not available for saving.''),
         statusType := Some Status_error, isSubmitting := False\<rparr>,
      frames := frames w @ [(ui w)\<lparr>submittedData := None, prediction := None,
         statusMessage := Some (js_lit ''Saving contact data to Firestore...''),
         statusType := Some Status_info, isSubmitting := True\<rparr>]\<rparr>"
  using assms
  by (simp add: submit_defs rejected_def save_no_handle can_save_def js_lit_nonempty Let_def)

lemma submit_ref_throws:
  assumes "\<not> rejected (ui w)" and "can_save (ui w)" and "doc_throws e = Some err"
  shows "snd (handleSubmit e w) =
    w\<lparr>ui := (ui w)\<lparr>submittedData := None, prediction := None,
         statusMessage := Some (if message err \<noteq> [] then message err
            else js_lit ''An unexpected error occurred during submission.''),
         statusType := Some Status_error, isSubmitting := False\<rparr>,
      frames := frames w @ [(ui w)\<lparr>submittedData := None, prediction := None,
         statusMessage := Some (js_lit ''Saving contact data to Firestore...''),
         statusType := Some Status_info, isSubmitting := True\<rparr>]\<rparr>"
  using assms
  by (simp add: submit_defs rejected_def save_ref_throws can_save_def Let_def)

lemma submit_write_fails:
  assumes "\<not> rejected (ui w)" and "db (ui w) \<noteq> None" and "userId (ui w) = Some u" and "u \<noteq> []"
    and "setDoc_result e = Some err" and "doc_throws e = None"
  shows "snd (handleSubmit e w) =
    w\<lparr>ui := (ui w)\<lparr>submittedData := None, prediction := None,
         statusMessage := Some (js_lit ''Failed to save data to cloud. Check console.''),
         statusType := Some Status_error, isSubmitting := False\<rparr>,
      requests := requests w @
        [SetDoc \<lparr>ref_path = contacts_path e, ref_id = auto_id e\<rparr>
           \<lparr>sv_name = trim (name (ui w)), sv_phoneNumber = phoneNumber (ui w), sv_userId = u,
            sv_createdAt = ServerTimestamp\<rparr>],
      frames := frames w @ replicate 2 ((ui w)\<lparr>submittedData := None, prediction := None,
         statusMessage := Some (js_lit ''Saving contact data to Firestore...''),
         statusType := Some Status_info, isSubmitting := True\<rparr>)\<rparr>"
  using assms
  by (simp add: submit_defs rejected_def save_write_fails can_save_def truthy_def js_lit_nonempty Let_def
      numeral_2_eq_2)

lemma submit_saved_requests:
  assumes "\<not> rejected (ui w)" and "db (ui w) \<noteq> None" and "userId (ui w) = Some u" and "u \<noteq> []"
    and "setDoc_result e = None" and "doc_throws e = None"
  shows "requests (snd (handleSubmit e w)) = requests w @
        [SetDoc \<lparr>ref_path = contacts_path e, ref_id = auto_id e\<rparr>
           \<lparr>sv_name = trim (name (ui w)), sv_phoneNumber = phoneNumber (ui w), sv_userId = u,
            sv_createdAt = ServerTimestamp\<rparr>,
         Fetch (prediction_request (trim (name (ui w))) (phoneNumber (ui w)))]"
  using assms
  by (simp add: submit_defs rejected_def save_written predict_pair predicted_requests can_save_def truthy_def Let_def)

lemma submit_saved_store:
  assumes "\<not> rejected (ui w)" and "db (ui w) \<noteq> None" and "userId (ui w) = Some u" and "u \<noteq> []"
    and "setDoc_result e = None" and "doc_throws e = None"
  shows "store (snd (handleSubmit e w)) = (store w)
        (\<lparr>ref_path = contacts_path e, ref_id = auto_id e\<rparr> \<mapsto>
           \<lparr>sv_name = trim (name (ui w)), sv_phoneNumber = phoneNumber (ui w), sv_userId = u,
            sv_createdAt = ServerTimestamp\<rparr>)"
  using assms
  by (simp add: submit_defs rejected_def save_written predict_pair predicted_store can_save_def truthy_def Let_def)

lemma submit_saved_ui:
  assumes "\<not> rejected (ui w)" and "db (ui w) \<noteq> None" and "userId (ui w) = Some u" and "u \<noteq> []"
    and "setDoc_result e = None" and "doc_throws e = None"
  shows "name (ui (snd (handleSubmit e w))) = []"
    and "phoneNumber (ui (snd (handleSubmit e w))) = []"
    and "submittedData (ui (snd (handleSubmit e w))) =
           Some \<lparr>sub_name = trim (name (ui w)), sub_phoneNumber = phoneNumber (ui w),
                  sub_docId = auto_id e\<rparr>"
    and "statusMessage (ui (snd (handleSubmit e w))) =
           Some (js_lit ''Data saved and prediction requested!'')"
    and "statusType (ui (snd (handleSubmit e w))) = Some Status_success"
    and "isSubmitting (ui (snd (handleSubmit e w))) = False"
    and "isPredicting (ui (snd (handleSubmit e w))) = False"
    and "db (ui (snd (handleSubmit e w))) = db (ui w)"
    and "userId (ui (snd (handleSubmit e w))) = userId (ui w)"
    and "isAuthReady (ui (snd (handleSubmit e w))) = isAuthReady (ui w)"
  using assms
  by (simp_all add: submit_defs rejected_def save_written predict_pair predicted_fields can_save_def truthy_def Let_def
        js_lit_empty)

lemma submit_rejected:
  assumes "rejected (ui w)"
  shows "snd (handleSubmit e w) =
    w\<lparr>ui := (ui w)\<lparr>submittedData := None, prediction := None,
       statusMessage := Some (if \<not> isAuthReady (ui w)
          then js_lit ''Authentication is not ready. Please wait a moment.''
          else js_lit ''Please enter a valid name and phone number (7-15 digits only).''),
       statusType := Some (if \<not> isAuthReady (ui w) then Status_info else Status_error)\<rparr>\<rparr>"
proof (cases "isAuthReady (ui w)")
  case False
  then show ?thesis by (simp add: handleSubmit_not_ready)
next
  case True
  with assms have "trim (name (ui w)) = [] \<or> \<not> validatePhoneNumber (phoneNumber (ui w))"
    by (simp add: rejected_def)
  with True show ?thesis by (simp add: handleSubmit_invalid)
qed

lemma predicted_frames:
  "frames (predicted e n p w) = frames w @
     replicate (case fetch_result e of FetchRejects x \<Rightarrow> 1
                | FetchResolves r \<Rightarrow> if resp_ok r then 2 else 1)
       ((ui w)\<lparr>isPredicting := True, prediction := None,
               statusMessage := Some (js_lit ''Predicting country...''),
               statusType := Some Status_info\<rparr>)"
  by (auto simp add: predicted_def predict_defs flow_defs setter_defs Let_def numeral_2_eq_2
      split: prod.splits sum.splits fetch_outcome.splits json_value.splits)

lemma in_flight_rejected:
  assumes "rejected (ui w)"
  shows "in_flight e w = []"
  using assms by (simp add: in_flight_def submit_rejected)

lemma in_flight_no_handle:
  assumes "\<not> rejected (ui w)" and "\<not> can_save (ui w)"
  shows "\<forall>f \<in> set (in_flight e w). isSubmitting f \<and> isAuthReady f = isAuthReady (ui w)
           \<and> submittedData f = None"
  using assms by (simp add: in_flight_def submit_no_handle)

lemma in_flight_ref_throws:
  assumes "\<not> rejected (ui w)" and "can_save (ui w)" and "doc_throws e = Some err"
  shows "\<forall>f \<in> set (in_flight e w). isSubmitting f \<and> isAuthReady f = isAuthReady (ui w)
           \<and> submittedData f = None"
  using assms by (simp add: in_flight_def submit_ref_throws)

lemma in_flight_write_fails:
  assumes "\<not> rejected (ui w)" and "db (ui w) \<noteq> None" and "userId (ui w) = Some u" and "u \<noteq> []"
    and "setDoc_result e = Some err" and "doc_throws e = None"
  shows "\<forall>f \<in> set (in_flight e w). isSubmitting f \<and> isAuthReady f = isAuthReady (ui w)
           \<and> submittedData f = None"
  using assms by (simp add: in_flight_def submit_write_fails)

lemma in_flight_saved:
  assumes "\<not> rejected (ui w)" and "db (ui w) \<noteq> None" and "userId (ui w) = Some u" and "u \<noteq> []"
    and "setDoc_result e = None" and "doc_throws e = None"
  shows "\<forall>f \<in> set (in_flight e w). isSubmitting f \<and> isAuthReady f = isAuthReady (ui w)
           \<and> submittedData f = None"
  using assms
  by (auto simp add: in_flight_def submit_defs rejected_def save_written predict_pair
        predicted_frames predicted_fields can_save_def truthy_def Let_def)

lemma in_flight_submitting:
  "\<forall>f \<in> set (in_flight e w). isSubmitting f \<and> isAuthReady f = isAuthReady (ui w)
           \<and> submittedData f = None"
proof (cases "rejected (ui w)")
  case True
  then show ?thesis by (simp add: in_flight_rejected)
next
  case False
  show ?thesis
  proof (cases "can_save (ui w)")
    case no: False
    with False show ?thesis by (rule in_flight_no_handle)
  next
    case True
    then obtain u where u: "db (ui w) \<noteq> None" "userId (ui w) = Some u" "u \<noteq> []"
      by (auto simp add: can_save_def truthy_def split: option.splits)
    show ?thesis
    proof (cases "doc_throws e")
      case (Some err)
      with False True show ?thesis by (rule in_flight_ref_throws)
    next
      case None
      show ?thesis
      proof (cases "setDoc_result e")
        case ok: None
        with False u show ?thesis using None by (rule in_flight_saved)
      next
        case (Some err)
        with False u show ?thesis using None by (rule in_flight_write_fails)
      qed
    qed
  qed
qed

lemma trim_prefix: "\<exists>zs. dropWhile is_white_space s = trim s @ zs"
proof -
  let ?t = "dropWhile is_white_space s"
  have "trim s @ rev (takeWhile is_white_space (rev ?t)) =
        rev (takeWhile is_white_space (rev ?t) @ dropWhile is_white_space (rev ?t))"
    unfolding trim_def rev_append ..
  also have "\<dots> = ?t"
    unfolding takeWhile_dropWhile_id rev_rev_ident ..
  finally show ?thesis by metis
qed

lemma trim_idem: "trim (trim s) = trim s"
proof (cases "trim s = []")
  case True
  have "trim [] = []" by (simp add: trim_def)
  with True show ?thesis by simp
next
  case False
  obtain zs where zs: "dropWhile is_white_space s = trim s @ zs"
    using trim_prefix by blast
  with False have ne: "dropWhile is_white_space s \<noteq> []" by auto
  from zs False have "hd (trim s) = hd (dropWhile is_white_space s)" by simp
  with hd_dropWhile [OF ne] have "\<not> is_white_space (hd (trim s))" by simp
  then have 1: "dropWhile is_white_space (trim s) = trim s"
    by (simp add: dropWhile_eq_self_iff)
  have 2: "dropWhile is_white_space (rev (trim s)) = rev (trim s)"
    by (simp add: trim_def)
  show ?thesis
    unfolding trim_def [of "trim s"] 1 2 by simp
qed

lemma submit_cases [case_names rejected no_handle ref_throws write_fails saved]:
  obtains "rejected (ui w)"
  | "\<not> rejected (ui w)" "\<not> can_save (ui w)"
  | err where "\<not> rejected (ui w)" "can_save (ui w)" "doc_throws e = Some err"
  | u err where "\<not> rejected (ui w)" "db (ui w) \<noteq> None" "userId (ui w) = Some u" "u \<noteq> []"
      "setDoc_result e = Some err" "doc_throws e = None"
  | u where "\<not> rejected (ui w)" "db (ui w) \<noteq> None" "userId (ui w) = Some u" "u \<noteq> []"
      "setDoc_result e = None" "doc_throws e = None"
proof (cases "rejected (ui w)")
  case True
  then show ?thesis by (rule that(1))
next
  case False
  show ?thesis
  proof (cases "can_save (ui w)")
    case no: False
    with False show ?thesis by (rule that(2))
  next
    case True
    then obtain u where u: "db (ui w) \<noteq> None" "userId (ui w) = Some u" "u \<noteq> []"
      by (auto simp add: can_save_def truthy_def split: option.splits)
    show ?thesis
    proof (cases "doc_throws e")
      case (Some err)
      with False True show ?thesis by (rule that(3))
    next
      case None
      show ?thesis
      proof (cases "setDoc_result e")
        case ok: None
        with False u show ?thesis using None by (rule that(5))
      next
        case (Some err)
        with False u show ?thesis using None by (rule that(4))
      qed
    qed
  qed
qed

lemma issued_rejected: "rejected (ui w) \<Longrightarrow> issued e w = []"
  by (simp add: issued_def submit_rejected)

lemma issued_no_handle: "\<not> rejected (ui w) \<Longrightarrow> \<not> can_save (ui w) \<Longrightarrow> issued e w = []"
  by (simp add: issued_def submit_no_handle)

lemma issued_ref_throws:
  "\<not> rejected (ui w) \<Longrightarrow> can_save (ui w) \<Longrightarrow> doc_throws e = Some err \<Longrightarrow> issued e w = []"
  by (simp add: issued_def submit_ref_throws)

lemma issued_write_fails:
  assumes "\<not> rejected (ui w)" and "db (ui w) \<noteq> None" and "userId (ui w) = Some u" and "u \<noteq> []"
    and "setDoc_result e = Some err" and "doc_throws e = None"
  shows "issued e w =
        [SetDoc \<lparr>ref_path = contacts_path e, ref_id = auto_id e\<rparr>
           \<lparr>sv_name = trim (name (ui w)), sv_phoneNumber = phoneNumber (ui w), sv_userId = u,
            sv_createdAt = ServerTimestamp\<rparr>]"
  using assms by (simp add: issued_def submit_write_fails)

lemma issued_saved:
  assumes "\<not> rejected (ui w)" and "db (ui w) \<noteq> None" and "userId (ui w) = Some u" and "u \<noteq> []"
    and "setDoc_result e = None" and "doc_throws e = None"
  shows "issued e w =
        [SetDoc \<lparr>ref_path = contacts_path e, ref_id = auto_id e\<rparr>
           \<lparr>sv_name = trim (name (ui w)), sv_phoneNumber = phoneNumber (ui w), sv_userId = u,
            sv_createdAt = ServerTimestamp\<rparr>,
         Fetch (prediction_request (trim (name (ui w))) (phoneNumber (ui w)))]"
  using assms by (simp add: issued_def submit_saved_requests)

lemma requests_issued: "requests (snd (handleSubmit e w)) = requests w @ issued e w"
proof (cases rule: submit_cases [where w = w and e = e])
  case rejected
  then show ?thesis by (simp add: issued_rejected submit_rejected)
next
  case no_handle
  then show ?thesis by (simp add: issued_no_handle submit_no_handle)
next
  case (ref_throws err)
  then show ?thesis by (simp add: issued_ref_throws submit_ref_throws)
next
  case (write_fails u err)
  then show ?thesis by (simp add: issued_write_fails submit_write_fails)
next
  case (saved u)
  then show ?thesis by (simp add: issued_saved submit_saved_requests)
qed

subsection \<open>The example inputs\<close>

lemma john_not_rejected: "\<not> rejected john"
proof -
  have "trim (js_lit ''John Smith'') \<noteq> []" by code_simp
  moreover have "validatePhoneNumber (js_lit ''442079460199'')" by code_simp
  ultimately show ?thesis by (simp add: rejected_def john_def initial_state_def)
qed

lemma john_fields:
  "db john = Some Firestore" "userId john = Some (js_lit ''uid-1'')" "isAuthReady john"
  "name john = js_lit ''John Smith''" "phoneNumber john = js_lit ''442079460199''"
  "isPredicting john = False"
  by (simp_all add: john_def initial_state_def)

lemma john_trim: "trim (js_lit ''John Smith'') = js_lit ''John Smith''"
  by code_simp

lemma after_john_rejected: "rejected after_john"
  by (simp add: rejected_def after_john_def trim_def)

lemma initial_rejected: "rejected initial_state"
  by (simp add: rejected_def initial_state_def)

lemma env_fields:
  "setDoc_result all_well = None" "setDoc_result prediction_fails = None"
  "setDoc_result write_fails = Some (Error (js_lit ''permission-denied''))"
  "auto_id all_well = js_lit ''doc-1''" "auto_id prediction_fails = js_lit ''doc-1''"
  "auto_id write_fails = js_lit ''doc-1''"
  "fetch_result prediction_fails = FetchRejects offline"
  "fetch_result all_well = FetchResolves answer"
  "doc_throws all_well = None" "doc_throws prediction_fails = None"
  "doc_throws write_fails = None"
  "doc_throws bad_app_id = Some (Error (js_lit ''Invalid collection reference.''))"
  "setDoc_result bad_app_id = None"
  by (simp_all add: all_well_def prediction_fails_def write_fails_def bad_app_id_def)

lemma start_fields:
  "ui (start s) = s" "requests (start s) = []" "frames (start s) = []" "store (start s) = Map.empty"
  by (simp_all add: start_def)

subsection \<open>A failed save stops the submission\<close>

text \<open>
  C3. The prediction call is never issued unless the store write has completed
  successfully. When \<open>saveContactToFirestore\<close> fails in an accepted submission (no
  store handle, no identity, a document reference that cannot be built, or a write
  that is rejected: by \<open>save_fails_iff\<close> these are all the ways it can fail), the
  submission ends with an error status and the message of the failure, \<open>isSubmitting\<close>
  is false again, \<open>isPredicting\<close> is untouched, no \<open>fetch\<close> is issued and the store is
  unchanged. Conversely, whenever a submission issues a \<open>fetch\<close>, the write before it
  succeeded: the submission issued exactly the write and then the \<open>fetch\<close>, and the
  document is in the store.
\<close>

theorem failed_save_aborts_before_prediction:
  "(\<not> rejected (ui w)
      \<and> (\<not> can_save (ui w) \<or> doc_throws e \<noteq> None \<or> setDoc_result e \<noteq> None) \<longrightarrow>
      statusType (ui (snd (handleSubmit e w))) = Some Status_error
      \<and> statusMessage (ui (snd (handleSubmit e w))) =
          Some (if \<not> can_save (ui w)
                then js_lit ''Firestore or User ID not available for saving.''
                else case doc_throws e of
                       Some err \<Rightarrow>
                         if message err \<noteq> [] then message err
                         else js_lit ''An unexpected error occurred during submission.''
                     | None \<Rightarrow> js_lit ''Failed to save data to cloud. Check console.'')
      \<and> \<not> isSubmitting (ui (snd (handleSubmit e w)))
      \<and> isPredicting (ui (snd (handleSubmit e w))) = isPredicting (ui w)
      \<and> \<not> list_ex is_fetch (issued e w)
      \<and> store (snd (handleSubmit e w)) = store w)
   \<and> (list_ex is_fetch (issued e w) \<longrightarrow>
        can_save (ui w) \<and> doc_throws e = None \<and> setDoc_result e = None
        \<and> length (issued e w) = 2 \<and> is_setDoc (issued e w ! 0)
        \<and> is_fetch (issued e w ! 1)
        \<and> store (snd (handleSubmit e w)) \<lparr>ref_path = contacts_path e, ref_id = auto_id e\<rparr>
            \<noteq> None)"
proof (cases rule: submit_cases [where w = w and e = e])
  case rejected
  then show ?thesis by (simp add: issued_rejected)
next
  case no_handle
  then show ?thesis by (simp add: issued_no_handle submit_no_handle)
next
  case (ref_throws err)
  then show ?thesis by (simp add: issued_ref_throws submit_ref_throws)
next
  case (write_fails u err)
  then have "can_save (ui w)" by (simp add: can_save_def truthy_def)
  with write_fails show ?thesis by (simp add: issued_write_fails submit_write_fails)
next
  case (saved u)
  then have "can_save (ui w)" by (simp add: can_save_def truthy_def)
  with saved show ?thesis by (simp add: issued_saved submit_saved_store)
qed

theorem failed_save_aborts_before_prediction_witness:
  "(\<not> rejected (ui (start john)) \<and> setDoc_result write_fails \<noteq> None
    \<and> statusType (ui (snd (handleSubmit write_fails (start john)))) = Some Status_error
    \<and> \<not> list_ex is_fetch (issued write_fails (start john)))
   \<and> (doc_throws bad_app_id \<noteq> None
    \<and> statusType (ui (snd (handleSubmit bad_app_id (start john)))) = Some Status_error
    \<and> statusMessage (ui (snd (handleSubmit bad_app_id (start john)))) =
        Some (js_lit ''Invalid collection reference.'')
    \<and> \<not> list_ex is_fetch (issued bad_app_id (start john)))
   \<and> (list_ex is_fetch (issued all_well (start john))
      \<and> setDoc_result all_well = None \<and> length (issued all_well (start john)) = 2)"
proof -
  have 1: "\<not> rejected (ui (start john))" by (simp add: start_fields john_not_rejected)
  have 2: "setDoc_result write_fails \<noteq> None" by (simp add: env_fields)
  have 3: "list_ex is_fetch (issued all_well (start john))"
    using 1
    by (simp add: issued_saved [where u = "js_lit ''uid-1''"] start_fields john_fields
          env_fields js_lit_nonempty)
  have 4: "doc_throws bad_app_id = Some (Error (js_lit ''Invalid collection reference.''))"
    by (simp add: env_fields)
  have 5: "can_save (ui (start john))"
    by (simp add: can_save_def truthy_def start_fields john_fields js_lit_nonempty)
  have 6: "js_lit ''Invalid collection reference.'' \<noteq> []" by (simp add: js_lit_nonempty)
  note a = failed_save_aborts_before_prediction [of "start john" write_fails, THEN conjunct1]
  note b = failed_save_aborts_before_prediction [of "start john" all_well, THEN conjunct2]
  note c = failed_save_aborts_before_prediction [of "start john" bad_app_id, THEN conjunct1]
  from a 1 2 have A: "statusType (ui (snd (handleSubmit write_fails (start john)))) = Some Status_error
    \<and> \<not> list_ex is_fetch (issued write_fails (start john))" by blast
  from b 3 have B: "setDoc_result all_well = None \<and> length (issued all_well (start john)) = 2"
    by blast
  from c 1 4 have C: "statusType (ui (snd (handleSubmit bad_app_id (start john)))) = Some Status_error
    \<and> statusMessage (ui (snd (handleSubmit bad_app_id (start john)))) =
          Some (if \<not> can_save (ui (start john))
                then js_lit ''Firestore or User ID not available for saving.''
                else case doc_throws bad_app_id of
                       Some err \<Rightarrow>
                         if message err \<noteq> [] then message err
                         else js_lit ''An unexpected error occurred during submission.''
                     | None \<Rightarrow> js_lit ''Failed to save data to cloud. Check console.'')
    \<and> \<not> list_ex is_fetch (issued bad_app_id (start john))" by blast
  from C 4 5 6 have C': "statusMessage (ui (snd (handleSubmit bad_app_id (start john)))) =
        Some (js_lit ''Invalid collection reference.'')" by simp
  from 4 have D: "doc_throws bad_app_id \<noteq> None" by simp
  from 1 2 3 D A B C C' show ?thesis by blast
qed

lemma predicted_success:
  assumes "fetch_result e = FetchResolves r" and "resp_ok r" and "resp_json r = Inr (JCandidates t)"
  shows "prediction (ui (predicted e n p w)) =
           Some (case t of None \<Rightarrow> js_lit ''Could not determine country of origin.''
                 | Some x \<Rightarrow> if x = [] then js_lit ''Could not determine country of origin.'' else x)"
    and "statusType (ui (predicted e n p w)) = Some Status_success"
    and "statusMessage (ui (predicted e n p w)) = Some (js_lit ''Prediction complete!'')"
  using assms
  by (auto simp add: predicted_def predict_defs flow_defs setter_defs truthy_def Let_def
      split: option.splits)

lemma predicted_failure:
  assumes "request_fails e"
  shows "prediction (ui (predicted e n p w)) = None"
    and "statusType (ui (predicted e n p w)) = Some Status_error"
    and "statusMessage (ui (predicted e n p w)) =
           Some (js_lit ''Failed to predict country. Check console for API errors.'')"
  using assms
  by (auto simp add: predicted_def request_fails_def predict_defs flow_defs setter_defs Let_def
      split: fetch_outcome.splits)

lemma submit_saved_prediction:
  assumes "\<not> rejected (ui w)" and "db (ui w) \<noteq> None" and "userId (ui w) = Some u" and "u \<noteq> []"
    and "setDoc_result e = None" and "doc_throws e = None"
  shows "\<exists>w'. prediction (ui (snd (handleSubmit e w))) =
           prediction (ui (predicted e (trim (name (ui w))) (phoneNumber (ui w)) w'))"
  using assms
  by (auto simp add: submit_defs rejected_def save_written predict_pair can_save_def truthy_def Let_def)

subsection \<open>The other handlers\<close>

lemma mountEffect_outside:
  "requests (snd (mountEffect e w)) = requests w" "store (snd (mountEffect e w)) = store w"
  by (auto simp add: mountEffect_def firebase_call_def flow_defs setter_defs Let_def
      split: option.splits prod.splits)

lemma authStateListener_outside:
  "list_all valid_request (requests (snd (authStateListener e user w))) =
     list_all valid_request (requests w)"
  "store (snd (authStateListener e user w)) = store w"
  by (auto simp add: authStateListener_def authenticate_def signIn_def flow_defs setter_defs Let_def
      split: option.splits prod.splits)

lemma authenticate_failure:
  assumes "signIn_result e = Some err"
  shows "isAuthReady (ui (snd (authStateListener e None w))) = isAuthReady (ui w)"
    and "statusType (ui (snd (authStateListener e None w))) = Some Status_error"
    and "statusMessage (ui (snd (authStateListener e None w))) =
           Some (js_lit ''Authentication failed. Check console for details.'')"
  using assms
  by (auto simp add: authStateListener_def authenticate_def signIn_def flow_defs setter_defs Let_def
      split: option.splits prod.splits)

lemma mountEffect_failure:
  assumes "init_throws e = Some (step, err)"
  shows "isAuthReady (ui (snd (mountEffect e w)))"
    and "statusType (ui (snd (mountEffect e w))) = Some Status_error"
  using assms
  by (cases step; simp add: mountEffect_def firebase_call_def flow_defs setter_defs Let_def)+

subsection \<open>Reachable states\<close>

lemma ran_upd_valid:
  assumes "\<forall>d \<in> ran m. valid_record d" and "valid_record d'"
  shows "\<forall>d \<in> ran (m(k \<mapsto> d')). valid_record d"
proof
  fix d assume "d \<in> ran (m(k \<mapsto> d'))"
  then obtain k' where "(m(k \<mapsto> d')) k' = Some d" by (auto simp add: ran_def)
  then have "d = d' \<or> m k' = Some d" by (auto split: if_splits)
  with assms show "valid_record d" by (auto simp add: ran_def)
qed

lemma submit_store_ok:
  assumes "store_ok w"
  shows "store_ok (snd (handleSubmit e w))"
proof (cases rule: submit_cases [where w = w and e = e])
  case rejected
  with assms show ?thesis by (simp add: submit_rejected store_ok_def)
next
  case no_handle
  with assms show ?thesis by (simp add: submit_no_handle store_ok_def)
next
  case (ref_throws err)
  with assms show ?thesis by (simp add: submit_ref_throws store_ok_def)
next
  case (write_fails u err)
  then have "valid_record \<lparr>sv_name = trim (name (ui w)), sv_phoneNumber = phoneNumber (ui w),
      sv_userId = u, sv_createdAt = ServerTimestamp\<rparr>"
    by (simp add: valid_record_def rejected_def trim_idem)
  with assms write_fails show ?thesis by (simp add: submit_write_fails store_ok_def)
next
  case (saved u)
  then have v: "valid_record \<lparr>sv_name = trim (name (ui w)), sv_phoneNumber = phoneNumber (ui w),
      sv_userId = u, sv_createdAt = ServerTimestamp\<rparr>"
    by (simp add: valid_record_def rejected_def trim_idem)
  from assms have "\<forall>d \<in> ran (store w). valid_record d" by (simp add: store_ok_def)
  from ran_upd_valid [OF this v] assms v saved show ?thesis
    by (simp add: submit_saved_requests submit_saved_store store_ok_def)
qed

lemma handle_store_ok: "store_ok w \<Longrightarrow> store_ok (handle w ev)"
  by (cases ev)
     (simp_all add: store_ok_def [of "snd (mountEffect _ _)"] store_ok_def [of "snd (authStateListener _ _ _)"]
        store_ok_def [of "setName _ _"] store_ok_def [of "setPhoneNumber _ _"] 
        mountEffect_outside authStateListener_outside setter_defs submit_store_ok,
      simp_all add: store_ok_def)

lemma foldl_store_ok: "store_ok w \<Longrightarrow> store_ok (foldl handle w evs)"
  by (induction evs arbitrary: w) (simp_all add: handle_store_ok)

lemma run_store_ok: "store_ok (run evs)"
  unfolding run_def by (rule foldl_store_ok) (simp add: store_ok_def start_def)

lemma typed_phone: "strip_non_digits (js_lit ''+44 20 7946 0199'') = js_lit ''442079460199''"
  by code_simp

lemma run_until_submit:
  "run until_submit =
     \<lparr>ui = john, store = Map.empty, requests = [SignInAnonymously],
      frames = [initial_state\<lparr>db := Some Firestore\<rparr>]\<rparr>"
  by (simp add: run_def until_submit_def typed_phone mountEffect_def authStateListener_def
        authenticate_def firebase_call_def signIn_def initialAuthToken_def flow_defs setter_defs
        all_well_def start_def john_def initial_state_def Let_def)

lemma run_session: "run session = snd (handleSubmit all_well (run until_submit))"
  by (simp add: run_def session_def)

lemma session_store: "store (run session) john_ref = Some john_record"
  using john_not_rejected
  by (simp add: run_session run_until_submit submit_saved_store [where u = "js_lit ''uid-1''"]
        john_fields env_fields js_lit_nonempty john_trim john_ref_def john_record_def)

lemma john_issued:
  "issued all_well (start john) =
     [SetDoc john_ref john_record,
      Fetch (prediction_request (js_lit ''John Smith'') (js_lit ''442079460199''))]"
  using john_not_rejected
  by (simp add: issued_saved [where u = "js_lit ''uid-1''"] start_fields john_fields env_fields
        js_lit_nonempty john_trim john_ref_def john_record_def)

subsection \<open>What reaches the store\<close>

text \<open>
  C4. No record is written to the document store without a session identity and
  without validated fields. Every \<open>setDoc\<close> that a submit event issues carries the
  non-empty \<open>userId\<close> of the session, was issued with a store handle and a ready
  session, and carries the trimmed, non-empty name and a phone number that passes
  \<open>validatePhoneNumber\<close>. A submission that is rejected or finds no handle or identity
  issues nothing and leaves the store as it was, and \<open>saveContactToFirestore\<close> without
  them throws before any write. Hence in every state reachable from the initial one by
  the events of the page, every write request of the log and every document of the
  store is a valid record.
\<close>

theorem no_store_write_without_identity_and_validation:
  "(\<forall>r \<in> set (issued e w). \<forall>ref d. r = SetDoc ref d \<longrightarrow>
        userId (ui w) = Some (sv_userId d) \<and> sv_userId d \<noteq> [] \<and> db (ui w) \<noteq> None
        \<and> isAuthReady (ui w)
        \<and> sv_name d = trim (name (ui w)) \<and> sv_name d \<noteq> []
        \<and> sv_phoneNumber d = phoneNumber (ui w) \<and> validatePhoneNumber (sv_phoneNumber d))
   \<and> (\<not> can_save (ui w) \<or> rejected (ui w) \<longrightarrow>
        issued e w = [] \<and> store (snd (handleSubmit e w)) = store w)
   \<and> (\<not> can_save (ui w) \<longrightarrow>
        saveContactToFirestore e c w =
          (Inl (Error (js_lit ''Firestore or User ID not available for saving.'')), w))
   \<and> list_all valid_request (requests (run evs))
   \<and> (store (run evs) k = Some x \<longrightarrow> valid_record x)"
proof -
  have "\<forall>r \<in> set (issued e w). \<forall>ref d. r = SetDoc ref d \<longrightarrow>
        userId (ui w) = Some (sv_userId d) \<and> sv_userId d \<noteq> [] \<and> db (ui w) \<noteq> None
        \<and> isAuthReady (ui w)
        \<and> sv_name d = trim (name (ui w)) \<and> sv_name d \<noteq> []
        \<and> sv_phoneNumber d = phoneNumber (ui w) \<and> validatePhoneNumber (sv_phoneNumber d)"
  proof (cases rule: submit_cases [where w = w and e = e])
    case rejected
    then show ?thesis by (simp add: issued_rejected)
  next
    case no_handle
    then show ?thesis by (simp add: issued_no_handle)
  next
    case (ref_throws err)
    then show ?thesis by (simp add: issued_ref_throws)
  next
    case (write_fails u err)
    then show ?thesis by (auto simp add: issued_write_fails rejected_def)
  next
    case (saved u)
    then show ?thesis by (auto simp add: issued_saved rejected_def)
  qed
  moreover have "\<not> can_save (ui w) \<or> rejected (ui w) \<longrightarrow>
        issued e w = [] \<and> store (snd (handleSubmit e w)) = store w"
  proof (cases "rejected (ui w)")
    case True
    then show ?thesis by (simp add: issued_rejected submit_rejected)
  next
    case False
    then show ?thesis by (auto simp add: issued_no_handle submit_no_handle)
  qed
  moreover have "\<not> can_save (ui w) \<longrightarrow>
        saveContactToFirestore e c w =
          (Inl (Error (js_lit ''Firestore or User ID not available for saving.'')), w)"
    by (simp add: save_no_handle)
  moreover have "list_all valid_request (requests (run evs))"
    using run_store_ok [of evs] by (simp add: store_ok_def)
  moreover have "store (run evs) k = Some x \<longrightarrow> valid_record x"
    using run_store_ok [of evs] by (auto simp add: store_ok_def ran_def)
  ultimately show ?thesis by (intro conjI)
qed

theorem no_store_write_without_identity_and_validation_witness:
  "SetDoc john_ref john_record \<in> set (issued all_well (start john))
   \<and> userId (ui (start john)) = Some (sv_userId john_record)
   \<and> validatePhoneNumber (sv_phoneNumber john_record)
   \<and> \<not> can_save (ui (start initial_state))
   \<and> issued all_well (start initial_state) = []
   \<and> store (run session) john_ref = Some john_record
   \<and> valid_record john_record"
proof -
  have 1: "SetDoc john_ref john_record \<in> set (issued all_well (start john))"
    by (simp add: john_issued)
  have 2: "\<not> can_save (ui (start initial_state))"
    by (simp add: can_save_def start_fields initial_state_def)
  note 3 = session_store
  note a = no_store_write_without_identity_and_validation
      [of all_well "start john" undefined "[]" john_ref john_record]
  note b = no_store_write_without_identity_and_validation
      [of all_well "start initial_state" undefined session john_ref john_record]
  from a 1 have "userId (ui (start john)) = Some (sv_userId john_record)
      \<and> validatePhoneNumber (sv_phoneNumber john_record)" by blast
  moreover from b 2 have "issued all_well (start initial_state) = []" by blast
  moreover from b 3 have "valid_record john_record" by blast
  ultimately show ?thesis using 1 2 3 by (intro conjI) simp_all
qed

subsection \<open>Rejected submissions\<close>

text \<open>
  C6, as stated, fails where the session is not ready: the status of that rejection is
  of kind \<open>info\<close>, not \<open>error\<close>. The initial state is such a state.
\<close>

theorem not_ready_submission_status_is_info:
  "\<not> isAuthReady (ui (start initial_state))
   \<and> statusType (ui (snd (handleSubmit all_well (start initial_state)))) \<noteq> Some Status_error"
  by (simp add: submit_rejected initial_rejected start_fields, simp add: initial_state_def)

text \<open>
  C6, amended. A submit event with an empty name after trimming, with a phone number
  that fails validation, or with a session that is not ready is rejected without any
  request: nothing is added to the log and the store is unchanged. The status of the
  rejection is of kind \<open>error\<close> when the session is ready and of kind \<open>info\<close> when it is
  not.
\<close>

theorem rejected_submission_issues_nothing:
  assumes "\<not> isAuthReady (ui w) \<or> trim (name (ui w)) = []
           \<or> \<not> validatePhoneNumber (phoneNumber (ui w))"
  shows "statusType (ui (snd (handleSubmit e w))) =
           Some (if isAuthReady (ui w) then Status_error else Status_info)
         \<and> statusMessage (ui (snd (handleSubmit e w))) =
           Some (if isAuthReady (ui w)
                 then js_lit ''Please enter a valid name and phone number (7-15 digits only).''
                 else js_lit ''Authentication is not ready. Please wait a moment.'')
         \<and> issued e w = []
         \<and> requests (snd (handleSubmit e w)) = requests w
         \<and> store (snd (handleSubmit e w)) = store w
         \<and> isSubmitting (ui (snd (handleSubmit e w))) = isSubmitting (ui w)"
proof -
  from assms have "rejected (ui w)" by (simp add: rejected_def)
  then show ?thesis by (simp add: submit_rejected issued_rejected)
qed

theorem rejected_submission_issues_nothing_witness:
  "(\<not> isAuthReady (ui (start initial_state))
      \<and> statusType (ui (snd (handleSubmit all_well (start initial_state)))) = Some Status_info
      \<and> issued all_well (start initial_state) = [])
   \<and> (isAuthReady (ui (start after_john)) \<and> trim (name (ui (start after_john))) = []
      \<and> statusType (ui (snd (handleSubmit all_well (start after_john)))) = Some Status_error
      \<and> issued all_well (start after_john) = [])"
proof -
  have 1: "\<not> isAuthReady (ui (start initial_state))"
    by (simp add: start_fields initial_state_def)
  have 2: "isAuthReady (ui (start after_john)) \<and> trim (name (ui (start after_john))) = []"
    by (simp add: start_fields after_john_def john_def initial_state_def trim_def)
  from 1 have a: "\<not> isAuthReady (ui (start initial_state))
      \<or> trim (name (ui (start initial_state))) = []
      \<or> \<not> validatePhoneNumber (phoneNumber (ui (start initial_state)))" by simp
  from 2 have b: "\<not> isAuthReady (ui (start after_john))
      \<or> trim (name (ui (start after_john))) = []
      \<or> \<not> validatePhoneNumber (phoneNumber (ui (start after_john)))" by simp
  from rejected_submission_issues_nothing [OF a, of all_well]
    rejected_submission_issues_nothing [OF b, of all_well] 1 2
  show ?thesis by simp
qed

subsection \<open>A submission that succeeds\<close>

text \<open>
  The request that \<open>predictCountryOfOrigin\<close> sends for John Smith, written out: the
  prompt contains the name and the phone number as they were saved.
\<close>

lemma john_request:
  "prediction_request (js_lit ''John Smith'') (js_lit ''442079460199'') =
     \<lparr>url = js_lit ''https://generativelanguage.googleapis.com/v1beta/models/gemini-2.5-flash-preview-05-20:generateContent?key='',
      http_method = js_lit ''POST'',
      headers = [(js_lit ''Content-Type'', js_lit ''application/json'')],
      body =
        \<lparr>contents = [[js_lit ''Analyze the name \"John Smith\" and the phone number \"442079460199\". Based on international dialing codes and typical naming conventions, predict the most likely country of origin for this person. Provide a single, concise country name and an explanation in a single paragraph.'']],
         tools = [GoogleSearch],
         systemInstruction =
           [js_lit ''You are an expert geopolitical and name analysis assistant.'']\<rparr>\<rparr>"
  by (simp add: prediction_request_def apiUrl_def apiKey_def payload_def userQuery_def js_lit_def)

text \<open>
  C7. With the name \<open>John Smith\<close> and the phone number \<open>442079460199\<close>, a ready session
  and both calls succeeding (the document reference is built, the write and the
  request resolve, the response is 2xx with a body that is not \<open>null\<close>): the store
  receives the record with these two fields, the \<open>uid\<close> of the session and the sentinel
  of the server timestamp; the save returns the generated document identifier; the
  prediction request is the POST written out below, whose prompt contains the same two
  fields; the final status is of kind \<open>success\<close>; both input fields are empty; and the
  panel of the last submission shows the name, the phone number and the document
  identifier.
\<close>

theorem john_smith_end_to_end:
  assumes "name (ui w) = js_lit ''John Smith''"
    and "phoneNumber (ui w) = js_lit ''442079460199''"
    and "isAuthReady (ui w)" and "db (ui w) \<noteq> None"
    and "userId (ui w) = Some u" and "u \<noteq> []"
    and "doc_throws e = None" and "setDoc_result e = None"
    and "fetch_result e = FetchResolves r" and "resp_ok r"
    and "resp_json r = Inr (JCandidates t)"
  shows "issued e w =
           [SetDoc \<lparr>ref_path = [js_lit ''artifacts'', appId e, js_lit ''public'',
                                  js_lit ''data'', js_lit ''contacts''],
                     ref_id = auto_id e\<rparr>
              \<lparr>sv_name = js_lit ''John Smith'', sv_phoneNumber = js_lit ''442079460199'',
               sv_userId = u, sv_createdAt = ServerTimestamp\<rparr>,
            Fetch
              \<lparr>url = js_lit ''https://generativelanguage.googleapis.com/v1beta/models/gemini-2.5-flash-preview-05-20:generateContent?key='',
               http_method = js_lit ''POST'',
               headers = [(js_lit ''Content-Type'', js_lit ''application/json'')],
               body =
                 \<lparr>contents = [[js_lit ''Analyze the name \"John Smith\" and the phone number \"442079460199\". Based on international dialing codes and typical naming conventions, predict the most likely country of origin for this person. Provide a single, concise country name and an explanation in a single paragraph.'']],
                  tools = [GoogleSearch],
                  systemInstruction =
                    [js_lit ''You are an expert geopolitical and name analysis assistant.'']\<rparr>\<rparr>]
         \<and> store (snd (handleSubmit e w)) \<lparr>ref_path = contacts_path e, ref_id = auto_id e\<rparr> =
             Some \<lparr>sv_name = js_lit ''John Smith'', sv_phoneNumber = js_lit ''442079460199'',
                    sv_userId = u, sv_createdAt = ServerTimestamp\<rparr>
         \<and> fst (saveContactToFirestore e
                  \<lparr>cd_name = js_lit ''John Smith'', cd_phoneNumber = js_lit ''442079460199''\<rparr> w) =
             Inr (auto_id e)
         \<and> statusType (ui (snd (handleSubmit e w))) = Some Status_success
         \<and> statusMessage (ui (snd (handleSubmit e w))) =
             Some (js_lit ''Data saved and prediction requested!'')
         \<and> name (ui (snd (handleSubmit e w))) = []
         \<and> phoneNumber (ui (snd (handleSubmit e w))) = []
         \<and> last_submission_panel (ui (snd (handleSubmit e w))) =
             Some (js_lit ''John Smith'', js_lit ''442079460199'', auto_id e)
         \<and> prediction (ui (snd (handleSubmit e w))) =
             Some (case t of None \<Rightarrow> js_lit ''Could not determine country of origin.''
                   | Some x \<Rightarrow> if x = [] then js_lit ''Could not determine country of origin.''
                               else x)
         \<and> \<not> isSubmitting (ui (snd (handleSubmit e w)))
         \<and> \<not> isPredicting (ui (snd (handleSubmit e w)))"
proof -
  have valid: "validatePhoneNumber (js_lit ''442079460199'')" by code_simp
  from assms have nr: "\<not> rejected (ui w)"
    by (simp add: rejected_def john_trim valid js_lit_nonempty)
  note ok = nr assms(4,5,6,8,7)
  have can: "can_save (ui w)" using assms by (simp add: can_save_def truthy_def)
  obtain w' where "prediction (ui (snd (handleSubmit e w))) =
           prediction (ui (predicted e (trim (name (ui w))) (phoneNumber (ui w)) w'))"
    using submit_saved_prediction [OF ok] by blast
  then have pr: "prediction (ui (snd (handleSubmit e w))) =
             Some (case t of None \<Rightarrow> js_lit ''Could not determine country of origin.''
                   | Some x \<Rightarrow> if x = [] then js_lit ''Could not determine country of origin.''
                               else x)"
    by (simp add: predicted_success(1) [OF assms(9,10,11)])
  have sv: "fst (saveContactToFirestore e
                  \<lparr>cd_name = js_lit ''John Smith'', cd_phoneNumber = js_lit ''442079460199''\<rparr> w) =
             Inr (auto_id e)"
    by (simp add: save_written [OF can assms(8,5,7)])
  have iss: "issued e w =
           [SetDoc \<lparr>ref_path = contacts_path e, ref_id = auto_id e\<rparr>
              \<lparr>sv_name = js_lit ''John Smith'', sv_phoneNumber = js_lit ''442079460199'',
               sv_userId = u, sv_createdAt = ServerTimestamp\<rparr>,
            Fetch (prediction_request (js_lit ''John Smith'') (js_lit ''442079460199''))]"
    using assms(1,2) by (simp add: issued_saved [OF ok] john_trim)
  have rest: "store (snd (handleSubmit e w)) \<lparr>ref_path = contacts_path e, ref_id = auto_id e\<rparr> =
             Some \<lparr>sv_name = js_lit ''John Smith'', sv_phoneNumber = js_lit ''442079460199'',
                    sv_userId = u, sv_createdAt = ServerTimestamp\<rparr>
         \<and> statusType (ui (snd (handleSubmit e w))) = Some Status_success
         \<and> statusMessage (ui (snd (handleSubmit e w))) =
             Some (js_lit ''Data saved and prediction requested!'')
         \<and> name (ui (snd (handleSubmit e w))) = []
         \<and> phoneNumber (ui (snd (handleSubmit e w))) = []
         \<and> last_submission_panel (ui (snd (handleSubmit e w))) =
             Some (js_lit ''John Smith'', js_lit ''442079460199'', auto_id e)
         \<and> \<not> isSubmitting (ui (snd (handleSubmit e w)))
         \<and> \<not> isPredicting (ui (snd (handleSubmit e w)))"
    using assms(1,2)
    by (simp add: submit_saved_store [OF ok] submit_saved_ui [OF ok]
          last_submission_panel_def john_trim)
  from iss have "issued e w =
           [SetDoc \<lparr>ref_path = [js_lit ''artifacts'', appId e, js_lit ''public'',
                                  js_lit ''data'', js_lit ''contacts''],
                     ref_id = auto_id e\<rparr>
              \<lparr>sv_name = js_lit ''John Smith'', sv_phoneNumber = js_lit ''442079460199'',
               sv_userId = u, sv_createdAt = ServerTimestamp\<rparr>,
            Fetch
              \<lparr>url = js_lit ''https://generativelanguage.googleapis.com/v1beta/models/gemini-2.5-flash-preview-05-20:generateContent?key='',
               http_method = js_lit ''POST'',
               headers = [(js_lit ''Content-Type'', js_lit ''application/json'')],
               body =
                 \<lparr>contents = [[js_lit ''Analyze the name \"John Smith\" and the phone number \"442079460199\". Based on international dialing codes and typical naming conventions, predict the most likely country of origin for this person. Provide a single, concise country name and an explanation in a single paragraph.'']],
                  tools = [GoogleSearch],
                  systemInstruction =
                    [js_lit ''You are an expert geopolitical and name analysis assistant.'']\<rparr>\<rparr>]"
    by (simp only: john_request contacts_path_def)
  with rest pr sv show ?thesis by (intro conjI) simp_all
qed

theorem john_smith_end_to_end_witness:
  "issued all_well (start john) =
     [SetDoc john_ref john_record,
      Fetch (prediction_request (js_lit ''John Smith'') (js_lit ''442079460199''))]
   \<and> sv_createdAt john_record = ServerTimestamp
   \<and> store (snd (handleSubmit all_well (start john))) john_ref = Some john_record
   \<and> statusType (ui (snd (handleSubmit all_well (start john)))) = Some Status_success
   \<and> name (ui (snd (handleSubmit all_well (start john)))) = []
   \<and> phoneNumber (ui (snd (handleSubmit all_well (start john)))) = []
   \<and> last_submission_panel (ui (snd (handleSubmit all_well (start john)))) =
       Some (js_lit ''John Smith'', js_lit ''442079460199'', js_lit ''doc-1'')
   \<and> prediction (ui (snd (handleSubmit all_well (start john)))) = Some (js_lit ''United Kingdom'')"
proof -
  have u: "js_lit ''uid-1'' \<noteq> []" by (simp add: js_lit_nonempty)
  have k: "js_lit ''United Kingdom'' \<noteq> []" by (simp add: js_lit_nonempty)
  have "name (ui (start john)) = js_lit ''John Smith''"
    and "phoneNumber (ui (start john)) = js_lit ''442079460199''"
    and "isAuthReady (ui (start john))" and "db (ui (start john)) \<noteq> None"
    and "userId (ui (start john)) = Some (js_lit ''uid-1'')"
    and "doc_throws all_well = None"
    and "setDoc_result all_well = None"
    and "fetch_result all_well = FetchResolves answer" and "resp_ok answer"
    and "resp_json answer = Inr (JCandidates (Some (js_lit ''United Kingdom'')))"
    by (simp_all add: start_fields john_fields env_fields answer_def)
  from john_smith_end_to_end [OF this(1-5) u this(6-10)] k
  show ?thesis
    by (simp add: john_ref_def john_record_def env_fields john_request contacts_path_def)
qed

lemma in_flight_append:
  "frames (snd (handleSubmit e w)) = frames w @ in_flight e w"
proof (cases rule: submit_cases [where w = w and e = e])
  case rejected
  then show ?thesis by (simp add: in_flight_def submit_rejected)
next
  case no_handle
  then show ?thesis by (simp add: in_flight_def submit_no_handle)
next
  case (ref_throws err)
  then show ?thesis by (simp add: in_flight_def submit_ref_throws)
next
  case (write_fails u err)
  then show ?thesis by (simp add: in_flight_def submit_write_fails)
next
  case (saved u)
  then show ?thesis
    by (simp add: in_flight_def submit_defs rejected_def save_written predict_pair
        predicted_frames can_save_def truthy_def Let_def)
qed

lemma john_in_flight: "length (in_flight all_well (start john)) = 5"
  using john_not_rejected
  by (simp add: in_flight_def submit_defs rejected_def save_written predict_pair
        predicted_frames can_save_def truthy_def Let_def start_fields john_fields env_fields
        js_lit_nonempty answer_def)

subsection \<open>The submit button\<close>

text \<open>
  C8. In every state in which \<open>isSubmitting\<close> or \<open>isPredicting\<close> is true or the session
  is not ready, the submit button is disabled; and in every state in which a submit
  handler is suspended, \<open>isSubmitting\<close> is true, so the button is disabled for as long
  as a submission is in flight.
\<close>

theorem submit_disabled_while_in_flight_or_not_ready:
  "(isSubmitting s \<or> isPredicting s \<or> \<not> isAuthReady s \<longrightarrow> submit_disabled s)
   \<and> (\<forall>f \<in> set (in_flight e w). isSubmitting f \<and> submit_disabled f)"
  using in_flight_submitting [of e w] by (simp add: submit_disabled_def)

theorem submit_disabled_while_in_flight_or_not_ready_witness:
  "\<not> isAuthReady initial_state \<and> submit_disabled initial_state
   \<and> in_flight all_well (start john) \<noteq> []
   \<and> list_all submit_disabled (in_flight all_well (start john))"
proof -
  have 1: "\<not> isAuthReady initial_state" by (simp add: initial_state_def)
  have 2: "in_flight all_well (start john) \<noteq> []"
    using john_in_flight by auto
  from submit_disabled_while_in_flight_or_not_ready [of initial_state all_well "start john"] 1 2
  show ?thesis by (simp add: list_all_iff)
qed

subsection \<open>A failed prediction\<close>

text \<open>
  C9. \<open>predictCountryOfOrigin\<close> never throws: it completes normally for every input and
  every answer of the network, and a failed request leaves an error status and no
  prediction behind. So in \<open>handleSubmit\<close>, once the save has succeeded (the handle and
  the identity are there, the document reference is built and the write resolves: by
  \<open>save_fails_iff\<close> that is what a save that returns means), the updates after the
  prediction always run, whatever became of the prediction: \<open>submittedData\<close> is set,
  both inputs are cleared and the status is of kind \<open>success\<close>.
\<close>

theorem prediction_failure_never_propagates:
  "fst (predictCountryOfOrigin e n p w) = Inr ()
   \<and> (request_fails e \<longrightarrow>
        statusType (ui (snd (predictCountryOfOrigin e n p w))) = Some Status_error
        \<and> prediction (ui (snd (predictCountryOfOrigin e n p w))) = None)
   \<and> (\<not> rejected (ui w) \<and> can_save (ui w) \<and> doc_throws e = None \<and> setDoc_result e = None \<longrightarrow>
        fst (handleSubmit e w) = Inr ()
        \<and> submittedData (ui (snd (handleSubmit e w))) =
            Some \<lparr>sub_name = trim (name (ui w)), sub_phoneNumber = phoneNumber (ui w),
                   sub_docId = auto_id e\<rparr>
        \<and> name (ui (snd (handleSubmit e w))) = []
        \<and> phoneNumber (ui (snd (handleSubmit e w))) = []
        \<and> statusMessage (ui (snd (handleSubmit e w))) =
            Some (js_lit ''Data saved and prediction requested!'')
        \<and> statusType (ui (snd (handleSubmit e w))) = Some Status_success)"
proof -
  have "\<not> rejected (ui w) \<and> can_save (ui w) \<and> doc_throws e = None \<and> setDoc_result e = None \<longrightarrow>
        fst (handleSubmit e w) = Inr ()
        \<and> submittedData (ui (snd (handleSubmit e w))) =
            Some \<lparr>sub_name = trim (name (ui w)), sub_phoneNumber = phoneNumber (ui w),
                   sub_docId = auto_id e\<rparr>
        \<and> name (ui (snd (handleSubmit e w))) = []
        \<and> phoneNumber (ui (snd (handleSubmit e w))) = []
        \<and> statusMessage (ui (snd (handleSubmit e w))) =
            Some (js_lit ''Data saved and prediction requested!'')
        \<and> statusType (ui (snd (handleSubmit e w))) = Some Status_success"
  proof (cases rule: submit_cases [where w = w and e = e])
    case rejected
    then show ?thesis by simp
  next
    case no_handle
    then show ?thesis by simp
  next
    case (ref_throws err)
    then show ?thesis by simp
  next
    case (write_fails u err)
    then show ?thesis by simp
  next
    case (saved u)
    note ui = submit_saved_ui [OF saved]
    show ?thesis by (simp only: ui handleSubmit_returns simp_thms)
  qed
  moreover have "request_fails e \<longrightarrow>
        statusType (ui (snd (predictCountryOfOrigin e n p w))) = Some Status_error
        \<and> prediction (ui (snd (predictCountryOfOrigin e n p w))) = None"
    using predicted_failure [of e n p w] by (simp add: predicted_def)
  ultimately show ?thesis by (simp add: predict_returns)
qed

theorem prediction_failure_never_propagates_witness:
  "request_fails prediction_fails
   \<and> \<not> rejected (ui (start john)) \<and> can_save (ui (start john))
   \<and> doc_throws prediction_fails = None \<and> setDoc_result prediction_fails = None
   \<and> fst (predictCountryOfOrigin prediction_fails (js_lit ''John Smith'')
            (js_lit ''442079460199'') (start john)) = Inr ()
   \<and> statusType (ui (snd (predictCountryOfOrigin prediction_fails (js_lit ''John Smith'')
            (js_lit ''442079460199'') (start john)))) = Some Status_error
   \<and> statusType (ui (snd (handleSubmit prediction_fails (start john)))) = Some Status_success
   \<and> name (ui (snd (handleSubmit prediction_fails (start john)))) = []"
proof -
  have 1: "request_fails prediction_fails"
    by (simp add: request_fails_def env_fields)
  have 2: "\<not> rejected (ui (start john))" by (simp add: start_fields john_not_rejected)
  have 3: "can_save (ui (start john))"
    by (simp add: can_save_def truthy_def start_fields john_fields js_lit_nonempty)
  have 4: "setDoc_result prediction_fails = None" "doc_throws prediction_fails = None"
    by (simp_all add: env_fields)
  from prediction_failure_never_propagates
         [of prediction_fails "js_lit ''John Smith''" "js_lit ''442079460199''" "start john"]
       1 2 3 4
  show ?thesis by simp
qed

subsection \<open>What a submit event clears\<close>

text \<open>
  C10. Every submit event first clears \<open>submittedData\<close>, the prediction and the status:
  the handler behaves as if started from the cleared state, \<open>submittedData\<close> is \<open>null\<close>
  in every state in which it is suspended, and a rejected submission ends with no
  last-submission panel, no prediction and the status of the rejection in place of the
  previous one.
\<close>

theorem submit_clears_previous_result_first:
  "handleSubmit e w =
     handleSubmit e (w\<lparr>ui := (ui w)\<lparr>submittedData := None, prediction := None,
                                  statusMessage := None, statusType := None\<rparr>\<rparr>)
   \<and> (\<forall>f \<in> set (in_flight e w). submittedData f = None)
   \<and> (rejected (ui w) \<longrightarrow>
        submittedData (ui (snd (handleSubmit e w))) = None
        \<and> prediction (ui (snd (handleSubmit e w))) = None
        \<and> last_submission_panel (ui (snd (handleSubmit e w))) = None
        \<and> statusMessage (ui (snd (handleSubmit e w))) =
            Some (if isAuthReady (ui w)
                  then js_lit ''Please enter a valid name and phone number (7-15 digits only).''
                  else js_lit ''Authentication is not ready. Please wait a moment.''))"
proof -
  have "handleSubmit e w =
     handleSubmit e (w\<lparr>ui := (ui w)\<lparr>submittedData := None, prediction := None,
                                  statusMessage := None, statusType := None\<rparr>\<rparr>)"
    by (simp add: handleSubmit_def setter_defs)
  moreover have "\<forall>f \<in> set (in_flight e w). submittedData f = None"
    using in_flight_submitting [of e w] by simp
  moreover have "rejected (ui w) \<longrightarrow>
        submittedData (ui (snd (handleSubmit e w))) = None
        \<and> prediction (ui (snd (handleSubmit e w))) = None
        \<and> last_submission_panel (ui (snd (handleSubmit e w))) = None
        \<and> statusMessage (ui (snd (handleSubmit e w))) =
            Some (if isAuthReady (ui w)
                  then js_lit ''Please enter a valid name and phone number (7-15 digits only).''
                  else js_lit ''Authentication is not ready. Please wait a moment.'')"
    by (simp add: submit_rejected last_submission_panel_def)
  ultimately show ?thesis by (intro conjI)
qed

theorem submit_clears_previous_result_first_witness:
  "rejected (ui (start after_john))
   \<and> submittedData (ui (start after_john)) \<noteq> None
   \<and> prediction (ui (start after_john)) \<noteq> None
   \<and> submittedData (ui (snd (handleSubmit all_well (start after_john)))) = None
   \<and> prediction (ui (snd (handleSubmit all_well (start after_john)))) = None
   \<and> last_submission_panel (ui (snd (handleSubmit all_well (start after_john)))) = None
   \<and> in_flight all_well (start john) \<noteq> []
   \<and> list_all (\<lambda>f. submittedData f = None) (in_flight all_well (start john))"
proof -
  have 1: "rejected (ui (start after_john))" by (simp add: start_fields after_john_rejected)
  have 2: "submittedData (ui (start after_john)) \<noteq> None \<and> prediction (ui (start after_john)) \<noteq> None"
    by (simp add: start_fields after_john_def)
  have 3: "in_flight all_well (start john) \<noteq> []"
    using john_in_flight by auto
  note a = submit_clears_previous_result_first [of all_well "start after_john", THEN conjunct2]
  note b = submit_clears_previous_result_first [of all_well "start john", THEN conjunct2]
  from a b 1 2 3 show ?thesis by (simp add: list_all_iff)
qed

text \<open>
  C2 at a concrete input: the write succeeds and the \<open>fetch\<close> is rejected. The record
  stays in the store and in the panel of the last submission, but the final status is
  the success status of \<open>handleSubmit\<close>, which has overwritten the error status that
  \<open>predictCountryOfOrigin\<close> had set.
\<close>

theorem prediction_failure_ends_in_success_status:
  "request_fails prediction_fails
   \<and> statusType (ui (snd (handleSubmit prediction_fails (start john)))) = Some Status_success
   \<and> statusMessage (ui (snd (handleSubmit prediction_fails (start john)))) =
       Some (js_lit ''Data saved and prediction requested!'')
   \<and> store (snd (handleSubmit prediction_fails (start john))) john_ref = Some john_record
   \<and> last_submission_panel (ui (snd (handleSubmit prediction_fails (start john)))) =
       Some (js_lit ''John Smith'', js_lit ''442079460199'', js_lit ''doc-1'')"
proof -
  have ok: "\<not> rejected (ui (start john))" "db (ui (start john)) \<noteq> None"
    "userId (ui (start john)) = Some (js_lit ''uid-1'')" "js_lit ''uid-1'' \<noteq> []"
    "setDoc_result prediction_fails = None"
    by (simp_all add: start_fields john_not_rejected john_fields env_fields js_lit_nonempty)
  have "contacts_path prediction_fails = contacts_path all_well"
    by (simp add: contacts_path_def appId_def prediction_fails_def)
  then show ?thesis
    by (simp add: submit_saved_ui [OF ok] submit_saved_store [OF ok] last_submission_panel_def
          request_fails_def env_fields start_fields john_fields john_trim john_ref_def
          john_record_def)
qed

subsection \<open>A sign-in that fails\<close>

text \<open>
  C5 at a concrete input: the component is mounted, the identity service reports no
  identity, and the anonymous sign-in is rejected. The error status is set, but
  \<open>isAuthReady\<close> is still false.
\<close>

theorem failed_sign_in_leaves_session_not_ready:
  "signIn_result sign_in_fails \<noteq> None
   \<and> statusType (ui (snd (authStateListener sign_in_fails None
        (snd (mountEffect sign_in_fails (start initial_state)))))) = Some Status_error
   \<and> \<not> isAuthReady (ui (snd (authStateListener sign_in_fails None
        (snd (mountEffect sign_in_fails (start initial_state))))))
   \<and> submit_disabled (ui (snd (authStateListener sign_in_fails None
        (snd (mountEffect sign_in_fails (start initial_state))))))"
proof -
  have f: "signIn_result sign_in_fails = Some (Error (js_lit ''auth/network-request-failed''))"
    by (simp add: sign_in_fails_def)
  have m: "isAuthReady (ui (snd (mountEffect sign_in_fails (start initial_state)))) = False"
    by (simp add: mountEffect_def firebase_call_def flow_defs setter_defs sign_in_fails_def
          all_well_def start_def initial_state_def)
  show ?thesis
    by (simp add: authenticate_failure [OF f] m f submit_disabled_def)
qed

end
